theory Spec2Isabelle
  imports Complex_Main
begin

section \<open>Python values\<close>

text \<open>
  The program is dynamically typed Python. A float is a finite number or one of the
  three special values; every other value the trading code inspects is one of the
  constructors of \<open>pyval\<close>. Python's unbounded integers are \<open>int\<close>; the finite floats
  carry their exact value, a \<open>real\<close> (rounding is part of the operations, below).
  Strings are \<open>string\<close>; the text handled here is 7-bit ASCII.
\<close>

datatype pyfloat = Finite real | PosInf | NegInf | NaN

datatype pyval =
    PNone
  | PBool bool
  | PInt int
  | PFloat pyfloat
  | PStr string
  | PList "pyval list"
  | PDict "(string \<times> pyval) list"

text \<open>The exceptions the modelled code raises; \<open>ExternalError\<close> stands for whatever an
  external collaborator (socket, clock helper, formatting library) raises.\<close>

datatype exn =
    InvalidTradeParametersError string
  | TradeExecutionError string
  | KeyError
  | AttributeError
  | TypeError
  | ValueError
  | IndexError
  | OverflowError
  | ExternalError

text \<open>\<open>isinstance(v, int)\<close>: \<open>bool\<close> is a subclass of \<open>int\<close> in Python.\<close>

fun isinstance_int :: "pyval \<Rightarrow> bool" where
  "isinstance_int (PInt n) = True"
| "isinstance_int (PBool b) = True"
| "isinstance_int v = False"

text \<open>\<open>isinstance(v, (int, float))\<close>.\<close>

fun isinstance_int_float :: "pyval \<Rightarrow> bool" where
  "isinstance_int_float (PInt n) = True"
| "isinstance_int_float (PBool b) = True"
| "isinstance_int_float (PFloat f) = True"
| "isinstance_int_float v = False"

text \<open>Truth value of an object, as \<open>if v:\<close> and \<open>not v\<close> test it.\<close>

fun truthy :: "pyval \<Rightarrow> bool" where
  "truthy PNone = False"
| "truthy (PBool b) = b"
| "truthy (PInt n) = (n \<noteq> 0)"
| "truthy (PFloat (Finite x)) = (x \<noteq> 0)"
| "truthy (PFloat f) = True"
| "truthy (PStr s) = (s \<noteq> [])"
| "truthy (PList xs) = (xs \<noteq> [])"
| "truthy (PDict kvs) = (kvs \<noteq> [])"

text \<open>\<open>f < c\<close> and \<open>f > c\<close> for a float and an integer constant: every comparison
  with NaN is false.\<close>

fun float_lt :: "pyfloat \<Rightarrow> real \<Rightarrow> bool" where
  "float_lt (Finite x) c = (x < c)"
| "float_lt PosInf c = False"
| "float_lt NegInf c = True"
| "float_lt NaN c = False"

fun float_gt :: "pyfloat \<Rightarrow> real \<Rightarrow> bool" where
  "float_gt (Finite x) c = (x > c)"
| "float_gt PosInf c = True"
| "float_gt NegInf c = False"
| "float_gt NaN c = False"

text \<open>\<open>v < c\<close> and \<open>v > c\<close> for an integer constant \<open>c\<close>: defined on numbers, a
  \<open>TypeError\<close> on everything else.\<close>

fun py_lt :: "pyval \<Rightarrow> int \<Rightarrow> exn + bool" where
  "py_lt (PInt n) c = Inr (n < c)"
| "py_lt (PBool b) c = Inr ((if b then 1 else 0) < c)"
| "py_lt (PFloat f) c = Inr (float_lt f (real_of_int c))"
| "py_lt v c = Inl TypeError"

fun py_gt :: "pyval \<Rightarrow> int \<Rightarrow> exn + bool" where
  "py_gt (PInt n) c = Inr (n > c)"
| "py_gt (PBool b) c = Inr ((if b then 1 else 0) > c)"
| "py_gt (PFloat f) c = Inr (float_gt f (real_of_int c))"
| "py_gt v c = Inl TypeError"

text \<open>A dictionary with string keys is a map; \<open>d.get(k)\<close> answers \<open>None\<close> for a
  missing key, \<open>d.get(k, default)\<close> the default.\<close>

definition dict_get :: "('k \<rightharpoonup> pyval) \<Rightarrow> 'k \<Rightarrow> pyval" where
  "dict_get d k = (case d k of None \<Rightarrow> PNone | Some v \<Rightarrow> v)"

definition dict_get_default :: "('k \<rightharpoonup> 'v) \<Rightarrow> 'k \<Rightarrow> 'v \<Rightarrow> 'v" where
  "dict_get_default d k dflt = (case d k of None \<Rightarrow> dflt | Some v \<Rightarrow> v)"

section \<open>Float arithmetic\<close>

text \<open>
  A Python float is an IEEE 754 double. \<open>Finite x\<close> stands for the double whose exact
  value is \<open>x\<close>: an integer multiple of a power of two, with at most 53 significant
  bits and an exponent between -1074 and 971. An operation computes the exact result
  and rounds it to the nearest double, a tie going to the double with the even
  significand; a result that rounds to \<open>2 ^ 1024\<close> or beyond is an infinity. (The two
  zeros are one value here.)
\<close>

text \<open>The number of binary digits of \<open>n\<close>.\<close>

fun bit_length :: "nat \<Rightarrow> nat" where
  "bit_length n = (if n = 0 then 0 else Suc (bit_length (n div 2)))"

declare bit_length.simps [simp del]

definition pow2 :: "int \<Rightarrow> real" where
  "pow2 k = (if 0 \<le> k then 2 ^ nat k else 1 / 2 ^ nat (- k))"

text \<open>For \<open>a > 0\<close>, the exponent \<open>e\<close> with \<open>2 ^ e \<le> a < 2 ^ (e + 1)\<close>.\<close>

definition binade :: "real \<Rightarrow> int" where
  "binade a =
     (if 1 \<le> a then int (bit_length (nat \<lfloor>a\<rfloor>)) - 1
      else - int (bit_length (nat (\<lceil>1 / a\<rceil> - 1))))"

definition round_half_even :: "real \<Rightarrow> int" where
  "round_half_even x =
     (let f = \<lfloor>x\<rfloor>; d = x - of_int f
      in if d < 1 / 2 then f else if 1 / 2 < d then f + 1
         else if even f then f else f + 1)"

text \<open>The double nearest to a real number: the spacing of the doubles around \<open>r\<close> is
  \<open>2 ^ q\<close>, 52 binary places below the leading digit and never below \<open>2 ^ -1074\<close>.\<close>

definition round_double :: "real \<Rightarrow> pyfloat" where
  "round_double r =
     (if r = 0 then Finite 0
      else
        (let a = \<bar>r\<bar>;
             q = max (binade a - 52) (- 1074);
             v = of_int (round_half_even (a / pow2 q)) * pow2 q
         in if 2 ^ 1024 \<le> v then (if 0 < r then PosInf else NegInf)
            else Finite (if 0 < r then v else - v)))"

text \<open>A float written with a value that is not a double (a decimal literal such as
  \<open>0.1\<close>) is the double nearest to it.\<close>

definition as_double :: "pyfloat \<Rightarrow> pyfloat" where
  "as_double f = (case f of Finite x \<Rightarrow> round_double x | _ \<Rightarrow> f)"

text \<open>\<open>f + g\<close> for two floats.\<close>

definition float_add :: "pyfloat \<Rightarrow> pyfloat \<Rightarrow> pyfloat" where
  "float_add f g =
     (case (as_double f, as_double g) of
        (Finite x, Finite y) \<Rightarrow> round_double (x + y)
      | (NaN, _) \<Rightarrow> NaN
      | (_, NaN) \<Rightarrow> NaN
      | (PosInf, NegInf) \<Rightarrow> NaN
      | (NegInf, PosInf) \<Rightarrow> NaN
      | (PosInf, _) \<Rightarrow> PosInf
      | (_, PosInf) \<Rightarrow> PosInf
      | (NegInf, _) \<Rightarrow> NegInf
      | (_, NegInf) \<Rightarrow> NegInf)"

text \<open>The conversion of an \<open>int\<close> to a float, as \<open>float + int\<close> and the format
  \<open>{n:.2f}\<close> make it: an \<open>OverflowError\<close> when the integer rounds beyond the largest
  double.\<close>

definition int_to_float :: "int \<Rightarrow> exn + pyfloat" where
  "int_to_float n =
     (case round_double (real_of_int n) of
        Finite v \<Rightarrow> Inr (Finite v)
      | _ \<Rightarrow> Inl OverflowError)"

text \<open>\<open>f + v\<close> for a float \<open>f\<close> and any value \<open>v\<close>.\<close>

fun py_float_add :: "pyfloat \<Rightarrow> pyval \<Rightarrow> exn + pyfloat" where
  "py_float_add f (PFloat g) = Inr (float_add f g)"
| "py_float_add f (PInt n) =
     (case int_to_float n of
        Inl e \<Rightarrow> Inl e
      | Inr g \<Rightarrow> Inr (float_add f g))"
| "py_float_add f (PBool b) = Inr (float_add f (Finite (if b then 1 else 0)))"
| "py_float_add f v = Inl TypeError"

text \<open>The format \<open>{v:.2f}\<close> of an f-string: \<open>None\<close> when it yields text, else the
  exception. A float and a \<open>bool\<close> always format, an \<open>int\<close> is converted to a float
  first; a string raises \<open>ValueError\<close>, every other value \<open>TypeError\<close>.\<close>

fun format_2f :: "pyval \<Rightarrow> exn option" where
  "format_2f (PFloat f) = None"
| "format_2f (PBool b) = None"
| "format_2f (PInt n) =
     (case int_to_float n of
        Inl e \<Rightarrow> Some e
      | Inr g \<Rightarrow> None)"
| "format_2f (PStr s) = Some ValueError"
| "format_2f v = Some TypeError"

section \<open>Strings and the regular expressions of the signal parser\<close>

definition is_digit :: "char \<Rightarrow> bool" where
  "is_digit c = (c \<in> set ''0123456789'')"

definition is_upper :: "char \<Rightarrow> bool" where
  "is_upper c = (c \<in> set ''ABCDEFGHIJKLMNOPQRSTUVWXYZ'')"

text \<open>Whitespace as \<open>str.strip\<close> and the pattern \<open>\s\<close> see it (ASCII range).\<close>

definition is_space :: "char \<Rightarrow> bool" where
  "is_space c = (c \<in> set [CHR 0x09, CHR 0x0A, CHR 0x0B, CHR 0x0C, CHR 0x0D,
                          CHR 0x1C, CHR 0x1D, CHR 0x1E, CHR 0x1F, CHR '' ''])"

definition is_O :: "char \<Rightarrow> bool" where
  "is_O c = (c = CHR ''O'' \<or> c = CHR ''o'')"

definition to_upper :: "char \<Rightarrow> char" where
  "to_upper c =
     (case map_of (zip ''abcdefghijklmnopqrstuvwxyz'' ''ABCDEFGHIJKLMNOPQRSTUVWXYZ'') c of
        None \<Rightarrow> c | Some u \<Rightarrow> u)"

definition to_lower :: "char \<Rightarrow> char" where
  "to_lower c =
     (case map_of (zip ''ABCDEFGHIJKLMNOPQRSTUVWXYZ'' ''abcdefghijklmnopqrstuvwxyz'') c of
        None \<Rightarrow> c | Some l \<Rightarrow> l)"

definition upper :: "string \<Rightarrow> string" where
  "upper s = map to_upper s"

definition lower :: "string \<Rightarrow> string" where
  "lower s = map to_lower s"

text \<open>\<open>s.strip()\<close>\<close>

definition strip :: "string \<Rightarrow> string" where
  "strip s = rev (dropWhile is_space (rev (dropWhile is_space s)))"

text \<open>\<open>s.replace(a, b)\<close> for one-character \<open>a\<close> and \<open>b\<close>, and \<open>s.replace(a, "")\<close>.\<close>

definition replace_char :: "char \<Rightarrow> char \<Rightarrow> string \<Rightarrow> string" where
  "replace_char a b s = map (\<lambda>c. if c = a then b else c) s"

definition remove_char :: "char \<Rightarrow> string \<Rightarrow> string" where
  "remove_char a s = filter (\<lambda>c. c \<noteq> a) s"

text \<open>\<open>s.split(sep)\<close> for a one-character separator: one more part than separators.\<close>

fun split_on :: "char \<Rightarrow> string \<Rightarrow> string list" where
  "split_on sep [] = [[]]"
| "split_on sep (c # cs) =
     (if c = sep then [] # split_on sep cs
      else (case split_on sep cs of
              [] \<Rightarrow> [[c]]
            | p # ps \<Rightarrow> (c # p) # ps))"

text \<open>\<open>sep.join(parts)\<close>\<close>

fun join :: "char \<Rightarrow> string list \<Rightarrow> string" where
  "join sep [] = []"
| "join sep [p] = p"
| "join sep (p # q # ps) = p @ sep # join sep (q # ps)"

text \<open>\<open>re.sub(r"[Oo](\d)", r"0\1", s)\<close>: scanning from the left, a letter O followed by a
  digit becomes a zero followed by that digit, and the scan resumes after the digit.\<close>

fun sub_O_digit :: "string \<Rightarrow> string" where
  "sub_O_digit (c # d # cs) =
     (if is_O c \<and> is_digit d then CHR ''0'' # d # sub_O_digit cs
      else c # sub_O_digit (d # cs))"
| "sub_O_digit cs = cs"

text \<open>\<open>re.sub(r"[Oo]\s*:", "0:", s)\<close>: a letter O, any whitespace and a colon become
  \<open>0:\<close>.\<close>

function sub_O_colon :: "string \<Rightarrow> string" where
  "sub_O_colon [] = []"
| "sub_O_colon (c # cs) =
     (if is_O c \<and> (case dropWhile is_space cs of [] \<Rightarrow> False | x # xs \<Rightarrow> x = CHR '':'')
      then CHR ''0'' # CHR '':'' # sub_O_colon (tl (dropWhile is_space cs))
      else c # sub_O_colon cs)"
  by pat_completeness auto
termination
proof (relation "measure length")
  fix c :: char and cs :: string
  have "length (tl (dropWhile is_space cs)) \<le> length (dropWhile is_space cs)"
    by simp
  also have "\<dots> \<le> length cs"
    by (rule length_dropWhile_le)
  finally show "(tl (dropWhile is_space cs), c # cs) \<in> measure length"
    by simp
qed simp_all

text \<open>\<open>re.sub(r"\s+", "", s)\<close>\<close>

definition remove_spaces :: "string \<Rightarrow> string" where
  "remove_spaces s = filter (\<lambda>c. \<not> is_space c) s"

text \<open>The pattern \<open>\d{1,2}:\d{2}\<close> at the start of a string: the match and the rest.
  The greedy two-digit hour is tried first, then the one-digit hour.\<close>

definition match_time :: "string \<Rightarrow> (string \<times> string) option" where
  "match_time s =
     (case s of
        a # b # c # d # e # r \<Rightarrow>
          if is_digit a \<and> is_digit b \<and> c = CHR '':'' \<and> is_digit d \<and> is_digit e
          then Some ([a, b, c, d, e], r)
          else if is_digit a \<and> b = CHR '':'' \<and> is_digit c \<and> is_digit d
          then Some ([a, b, c, d], e # r)
          else None
      | [a, b, c, d] \<Rightarrow>
          if is_digit a \<and> b = CHR '':'' \<and> is_digit c \<and> is_digit d
          then Some ([a, b, c, d], [])
          else None
      | _ \<Rightarrow> None)"

text \<open>\<open>[A-Z]{6}\<close>, a literal, and \<open>\d+\<close> at the start of a string.\<close>

definition match_pair :: "string \<Rightarrow> (string \<times> string) option" where
  "match_pair s =
     (if 6 \<le> length s \<and> list_all is_upper (take 6 s) then Some (take 6 s, drop 6 s)
      else None)"

definition match_literal :: "string \<Rightarrow> string \<Rightarrow> (string \<times> string) option" where
  "match_literal lit s =
     (if take (length lit) s = lit then Some (lit, drop (length lit) s) else None)"

definition match_digits :: "string \<Rightarrow> (string \<times> string) option" where
  "match_digits s =
     (if takeWhile is_digit s = [] then None
      else Some (takeWhile is_digit s, dropWhile is_digit s))"

text \<open>The alternation \<open>(\d{1,2}:\d{2}|[A-Z]{6}|CALL|PUT|\d+)\<close>: the first alternative
  that matches at the position wins.\<close>

definition match_token :: "string \<Rightarrow> (string \<times> string) option" where
  "match_token s =
     (case match_time s of Some m \<Rightarrow> Some m | None \<Rightarrow>
      (case match_pair s of Some m \<Rightarrow> Some m | None \<Rightarrow>
       (case match_literal ''CALL'' s of Some m \<Rightarrow> Some m | None \<Rightarrow>
        (case match_literal ''PUT'' s of Some m \<Rightarrow> Some m | None \<Rightarrow>
         match_digits s))))"

lemma match_time_shorter: "match_time s = Some (m, r) \<Longrightarrow> length r < length s"
  by (auto simp: match_time_def split: list.splits if_splits)

lemma match_pair_shorter: "match_pair s = Some (m, r) \<Longrightarrow> length r < length s"
  by (auto simp: match_pair_def split: if_splits)

lemma match_literal_shorter:
  "match_literal lit s = Some (m, r) \<Longrightarrow> lit \<noteq> [] \<Longrightarrow> length r < length s"
proof -
  assume a: "match_literal lit s = Some (m, r)" and b: "lit \<noteq> []"
  from a have t: "take (length lit) s = lit" and r: "r = drop (length lit) s"
    by (auto simp: match_literal_def split: if_splits)
  from t b have "s \<noteq> []" by auto
  with b r show ?thesis by simp
qed

lemma match_digits_shorter: "match_digits s = Some (m, r) \<Longrightarrow> length r < length s"
  by (cases s) (auto simp: match_digits_def less_Suc_eq_le length_dropWhile_le split: if_splits)

lemma match_token_shorter: "match_token s = Some (m, r) \<Longrightarrow> length r < length s"
  unfolding match_token_def
  by (auto split: option.splits
           dest: match_time_shorter match_pair_shorter match_literal_shorter
                 match_digits_shorter)

text \<open>\<open>re.findall\<close> of that alternation: the matches from left to right, none
  overlapping; a position where nothing matches is skipped.\<close>

function findall_tokens :: "string \<Rightarrow> string list" where
  "findall_tokens [] = []"
| "findall_tokens (c # cs) =
     (case match_token (c # cs) of
        Some (m, r) \<Rightarrow> m # findall_tokens r
      | None \<Rightarrow> findall_tokens cs)"
  by pat_completeness auto
termination
  by (relation "measure length") (auto dest: match_token_shorter)

text \<open>\<open>re.split(r'(\d{1,2}:\d{2})', text)\<close>: the text before the first match, then each
  match followed by the text up to the next match (or the end).\<close>

function re_split_time :: "string \<Rightarrow> string \<Rightarrow> string list" where
  "re_split_time seg [] = [seg]"
| "re_split_time seg (c # cs) =
     (case match_time (c # cs) of
        Some (m, r) \<Rightarrow> seg # m # re_split_time [] r
      | None \<Rightarrow> re_split_time (seg @ [c]) cs)"
  by pat_completeness auto
termination
  by (relation "measure (\<lambda>(seg, s). length s)") (auto dest: match_time_shorter)

text \<open>\<open>re.match(r"^\d{1,2}:\d{2}$", s)\<close>: \<open>$\<close> also matches before a final newline.\<close>

definition fullmatch_time :: "string \<Rightarrow> bool" where
  "fullmatch_time s =
     (case match_time s of
        None \<Rightarrow> False
      | Some (m, r) \<Rightarrow> r = [] \<or> r = [CHR 0x0A])"

text \<open>\<open>int(s)\<close> for a string of decimal digits: a \<open>ValueError\<close> on the empty string.
  (An interpreter that limits the length of the digit string raises \<open>ValueError\<close> beyond
  the limit as well; \<open>parse_signal\<close> catches either.)\<close>

definition digit_val :: "char \<Rightarrow> int" where
  "digit_val c = int (of_char c) - 48"

definition int_of_digits :: "string \<Rightarrow> exn + int" where
  "int_of_digits ds =
     (if ds = [] then Inl ValueError
      else Inr (foldl (\<lambda>n c. 10 * n + digit_val c) 0 ds))"

section \<open>signal\_parser.py\<close>

text \<open>\<open>clean_signal_line\<close>, statement by statement.\<close>

definition clean_signal_line :: "string \<Rightarrow> string" where
  "clean_signal_line line0 =
     (let line1 = strip line0;
          line2 = replace_char (CHR ''i'') (CHR '';'') line1;
          line3 = sub_O_digit line2;
          line4 = sub_O_colon line3;
          line5 = remove_spaces line4
      in if CHR '';'' \<notin> set line5 then join (CHR '';'') (findall_tokens line5)
         else line5)"

record signal =
  sig_time :: string
  sig_pair :: string
  sig_direction :: string
  sig_expiry :: int

text \<open>The body of the \<open>try\<close> block of \<open>parse_signal\<close>: \<open>Inl\<close> is an exception raised
  inside it, \<open>Inr None\<close> an early \<open>return None\<close>.\<close>

definition parse_signal_body :: "string \<Rightarrow> exn + signal option" where
  "parse_signal_body line =
     (let cleaned = clean_signal_line line;
          parts = split_on (CHR '';'') cleaned
      in if length parts < 4 then Inr None
         else
           (let time_str = strip (parts ! 0);
                pair = remove_char (CHR ''/'') (upper (parts ! 1));
                direction = upper (parts ! 2)
            in case int_of_digits (filter is_digit (parts ! 3)) of
                 Inl e \<Rightarrow> Inl e
               | Inr expiry \<Rightarrow>
                   if \<not> fullmatch_time time_str then Inr None
                   else if direction \<noteq> ''CALL'' \<and> direction \<noteq> ''PUT'' then Inr None
                   else Inr (Some \<lparr>sig_time = time_str, sig_pair = pair,
                                    sig_direction = direction, sig_expiry = expiry\<rparr>)))"

text \<open>\<open>parse_signal\<close>: \<open>except Exception\<close> logs and returns \<open>None\<close>.\<close>

definition parse_signal :: "string \<Rightarrow> signal option" where
  "parse_signal line =
     (case parse_signal_body line of
        Inl e \<Rightarrow> None
      | Inr res \<Rightarrow> res)"

text \<open>The loop of \<open>parse_signals_from_text\<close> over \<open>range(1, len(parts), 2)\<close>; an index
  outside \<open>parts\<close> raises \<open>IndexError\<close>.\<close>

fun text_loop :: "string list \<Rightarrow> signal list \<Rightarrow> nat list \<Rightarrow> exn + signal list" where
  "text_loop parts signals [] = Inr signals"
| "text_loop parts signals (i # is) =
     (if length parts \<le> i \<or> length parts \<le> i + 1 then Inl IndexError
      else
        (let time_str = parts ! i;
             signal_body = parts ! (i + 1);
             line = time_str @ signal_body
         in case parse_signal line of
              None \<Rightarrow> text_loop parts signals is
            | Some sig \<Rightarrow> text_loop parts (signals @ [sig]) is))"

definition parse_signals_from_text :: "string \<Rightarrow> exn + signal list" where
  "parse_signals_from_text text =
     (let parts = re_split_time [] text
      in text_loop parts [] (filter odd [1..<length parts]))"

text \<open>\<open>parse_signals_from_file\<close> on the lines \<open>readlines\<close> gives; \<open>None\<close> is a file that
  cannot be read, where the \<open>except\<close> clause leaves the empty list.\<close>

fun file_loop :: "signal list \<Rightarrow> string list \<Rightarrow> signal list" where
  "file_loop signals [] = signals"
| "file_loop signals (line # lines) =
     (case parse_signal line of
        None \<Rightarrow> file_loop signals lines
      | Some sig \<Rightarrow> file_loop (signals @ [sig]) lines)"

definition parse_signals_from_file :: "string list option \<Rightarrow> signal list" where
  "parse_signals_from_file content =
     (case content of
        None \<Rightarrow> []
      | Some lines \<Rightarrow> file_loop [] lines)"

text \<open>\<open>str(n)\<close> of an integer: its decimal digits.\<close>

fun str_nat :: "nat \<Rightarrow> string" where
  "str_nat n =
     (if n < 10 then [''0123456789'' ! n]
      else str_nat (n div 10) @ [''0123456789'' ! (n mod 10)])"

declare str_nat.simps [simp del]

definition str_int :: "int \<Rightarrow> string" where
  "str_int i = (if i < 0 then CHR ''-'' # str_nat (nat (- i)) else str_nat (nat i))"

section \<open>wsmanager/message\_handler.py\<close>

text \<open>
  The fields of \<open>MessageHandler\<close> that the trade manager reads: the server time, the two
  dictionaries of \<open>open_positions\<close> (request id to order id or rejection message) and
  \<open>position_info\<close> (order id to the last position payload). The remaining fields
  (profile, balances, candles, asset lists, history) are written by their handlers and
  read by nothing modelled here.
\<close>

record MessageHandler =
  server_time :: pyval
  digital_options :: "string \<rightharpoonup> pyval"
  binary_options :: "string \<rightharpoonup> pyval"
  position_info :: "int \<rightharpoonup> (string \<rightharpoonup> pyval)"

text \<open>\<open>__init__\<close>\<close>

definition MessageHandler_init :: MessageHandler where
  "MessageHandler_init =
     \<lparr>server_time = PNone, digital_options = Map.empty, binary_options = Map.empty,
      position_info = Map.empty\<rparr>"

text \<open>
  An inbound frame, by the \<open>name\<close> that \<open>handle_message\<close> looks up in its table. A frame
  is taken well formed: \<open>request_id\<close> is a string, \<open>msg\<close> an object (a dictionary with
  string keys), and the order id of a position frame converts with \<open>int(...)\<close>; the
  constructor carries the converted id (\<open>msg["raw_event"]["order_ids"][0]\<close> for
  \<open>position-changed\<close>, \<open>msg["id"]\<close> for \<open>option-closed\<close>) beside \<open>msg\<close>.
  \<open>OtherFrame\<close> is a frame of any other name: its handler, if it has one, writes none
  of the fields above.
\<close>

datatype push =
    TimeSync pyval
  | DigitalOptionPlaced string "string \<rightharpoonup> pyval"
  | PositionChanged int "string \<rightharpoonup> pyval"
  | OptionOpened string "string \<rightharpoonup> pyval"
  | OptionClosed int "string \<rightharpoonup> pyval"
  | OtherFrame

definition handle_server_time :: "MessageHandler \<Rightarrow> pyval \<Rightarrow> MessageHandler" where
  "handle_server_time h msg = h\<lparr>server_time := msg\<rparr>"

definition handle_digital_option_placed ::
  "MessageHandler \<Rightarrow> string \<Rightarrow> (string \<rightharpoonup> pyval) \<Rightarrow> MessageHandler" where
  "handle_digital_option_placed h request_id msg =
     (if dict_get msg ''id'' \<noteq> PNone
      then h\<lparr>digital_options := (digital_options h)(request_id \<mapsto> dict_get msg ''id'')\<rparr>
      else h\<lparr>digital_options := (digital_options h)(request_id \<mapsto> dict_get msg ''message'')\<rparr>)"

definition handle_position_changed ::
  "MessageHandler \<Rightarrow> int \<Rightarrow> (string \<rightharpoonup> pyval) \<Rightarrow> MessageHandler" where
  "handle_position_changed h order_id msg =
     h\<lparr>position_info := (position_info h)(order_id \<mapsto> msg)\<rparr>"

definition handle_binary_option_opened ::
  "MessageHandler \<Rightarrow> string \<Rightarrow> (string \<rightharpoonup> pyval) \<Rightarrow> MessageHandler" where
  "handle_binary_option_opened h request_id msg =
     (let option_id = dict_get msg ''id''
      in if truthy option_id
         then h\<lparr>binary_options := (binary_options h)(request_id \<mapsto> option_id)\<rparr>
         else h\<lparr>binary_options := (binary_options h)(request_id \<mapsto> dict_get msg ''message'')\<rparr>)"

definition handle_binary_option_closed ::
  "MessageHandler \<Rightarrow> int \<Rightarrow> (string \<rightharpoonup> pyval) \<Rightarrow> MessageHandler" where
  "handle_binary_option_closed h option_id msg =
     h\<lparr>position_info := (position_info h)(option_id \<mapsto> msg)\<rparr>"

fun handle_message :: "MessageHandler \<Rightarrow> push \<Rightarrow> MessageHandler" where
  "handle_message h (TimeSync msg) = handle_server_time h msg"
| "handle_message h (DigitalOptionPlaced request_id msg) =
     handle_digital_option_placed h request_id msg"
| "handle_message h (PositionChanged order_id msg) = handle_position_changed h order_id msg"
| "handle_message h (OptionOpened request_id msg) =
     handle_binary_option_opened h request_id msg"
| "handle_message h (OptionClosed option_id msg) =
     handle_binary_option_closed h option_id msg"
| "handle_message h OtherFrame = h"

section \<open>trade.py\<close>

text \<open>
  Time. A wait loop reads the clock, polls a dictionary and sleeps; frames are handled
  while it sleeps. A \<open>tick\<close> is one reading of \<open>time.time()\<close> together with the frames
  handled since the reading before it, and a schedule is the list of ticks the
  environment supplies. A wait that has not returned when the schedule ends is \<open>None\<close>.
\<close>

type_synonym tick = "push list \<times> real"

definition handle_all :: "MessageHandler \<Rightarrow> push list \<Rightarrow> MessageHandler" where
  "handle_all h frames = foldl handle_message h frames"

datatype 'a completion = Returned 'a | Raised exn

datatype log_record =
    Info_order_executed pyval real
  | Error_order_failed pyval
  | Error_confirmation_timeout real
  | Info_trade_closed int string pyval
  | Error_trade_failed exn
  | Error_unexpected exn

record options_body =
  user_balance_id :: int
  instrument_id :: string
  amount_str :: string
  asset_id :: int
  instrument_index :: int

record options_message =
  msg_name :: string
  msg_version :: string
  msg_body :: options_body

text \<open>
  What \<open>trade.py\<close> imports or is handed and the repository's files do not define: the
  asset table \<open>UNDERLYING_ASSESTS\<close>, the helpers \<open>get_expiration\<close> and
  \<open>get_remaining_secs\<close> of \<open>utilities\<close>, the account manager's \<open>current_account_id\<close>,
  the socket's \<open>send_message\<close> (\<open>Some e\<close>: it raises \<open>e\<close>), and the library calls
  \<open>datetime.fromtimestamp(t, utc).strftime("%Y%m%d%H%M")\<close>, \<open>int(v)\<close> and \<open>str\<close> of a
  float. Each is a parameter; a helper may raise.
\<close>

record externals =
  UNDERLYING_ASSESTS :: "string \<rightharpoonup> int"
  current_account_id :: pyval
  get_expiration :: "pyval \<Rightarrow> pyval \<Rightarrow> exn + real"
  get_remaining_secs :: "pyval \<Rightarrow> pyval \<Rightarrow> exn + real"
  strftime_utc :: "real \<Rightarrow> exn + string"
  py_int :: "pyval \<Rightarrow> exn + int"
  str_float :: "pyfloat \<Rightarrow> string"
  send_message :: "string \<Rightarrow> options_message \<Rightarrow> string \<Rightarrow> exn option"

fun get_asset_id :: "externals \<Rightarrow> pyval \<Rightarrow> exn + int" where
  "get_asset_id ext (PStr asset_name) =
     (case UNDERLYING_ASSESTS ext asset_name of
        Some n \<Rightarrow> Inr n
      | None \<Rightarrow> Inl KeyError)"
| "get_asset_id ext v = Inl KeyError"

text \<open>\<open>wait_for_order_confirmation\<close>: the value returned is \<open>Some (ok, result)\<close> for the
  tuples, \<open>None\<close> for falling off the end after the timeout. The first tick is the
  reading \<open>start_time = time.time()\<close>, each later tick one test of the \<open>while\<close>
  condition; the result carries the log records written, the handler as the frames
  handled so far have left it, and the ticks not read.\<close>

type_synonym confirmation = "(bool \<times> pyval) option"

fun confirmation_loop ::
  "externals \<Rightarrow> MessageHandler \<Rightarrow> string \<Rightarrow> pyval \<Rightarrow> real \<Rightarrow> real \<Rightarrow> tick list \<Rightarrow>
   (confirmation completion \<times> log_record list \<times> MessageHandler \<times> tick list) option" where
  "confirmation_loop ext h request_id expiry start_time timeout [] = None"
| "confirmation_loop ext h request_id expiry start_time timeout ((frames, now) # ticks) =
     (let h' = handle_all h frames
      in if now - start_time < timeout then
           (let result = dict_get (digital_options h') request_id
            in if result \<noteq> PNone then
                 (if isinstance_int result then
                    (case get_remaining_secs ext (server_time h') expiry of
                       Inl e \<Rightarrow> Some (Raised e, [], h', ticks)
                     | Inr expires_in \<Rightarrow>
                         Some (Returned (Some (True, result)),
                               [Info_order_executed result expires_in], h', ticks))
                  else Some (Returned (Some (False, result)),
                             [Error_order_failed result], h', ticks))
               else confirmation_loop ext h' request_id expiry start_time timeout ticks)
         else Some (Returned None, [Error_confirmation_timeout timeout], h', ticks))"

fun wait_for_order_confirmation ::
  "externals \<Rightarrow> MessageHandler \<Rightarrow> string \<Rightarrow> pyval \<Rightarrow> real \<Rightarrow> tick list \<Rightarrow>
   (confirmation completion \<times> log_record list \<times> MessageHandler \<times> tick list) option" where
  "wait_for_order_confirmation ext h request_id expiry timeout [] = None"
| "wait_for_order_confirmation ext h request_id expiry timeout ((frames, start_time) # ticks) =
     confirmation_loop ext (handle_all h frames) request_id expiry start_time timeout ticks"

text \<open>\<open>get_trade_outcome\<close>. The log line is built before the \<open>return\<close>: its
  \<open>{pnl:.2f}\<close> may raise.\<close>

fun outcome_loop ::
  "MessageHandler \<Rightarrow> int \<Rightarrow> real \<Rightarrow> real \<Rightarrow> tick list \<Rightarrow>
   ((bool \<times> pyval) completion \<times> log_record list \<times> MessageHandler \<times> tick list) option" where
  "outcome_loop h order_id start_time timeout [] = None"
| "outcome_loop h order_id start_time timeout ((frames, now) # ticks) =
     (let h' = handle_all h frames
      in if now - start_time < timeout + 3 then
           (let order_data = dict_get_default (position_info h') order_id Map.empty
            in if order_data \<noteq> Map.empty \<and> dict_get order_data ''status'' = PStr ''closed''
               then
                 (let pnl = dict_get_default order_data ''pnl'' (PInt 0)
                  in case py_gt pnl 0 of
                       Inl e \<Rightarrow> Some (Raised e, [], h', ticks)
                     | Inr win \<Rightarrow>
                         (let result_type = (if win then ''WIN'' else ''LOSS'')
                          in case format_2f pnl of
                               Some e \<Rightarrow> Some (Raised e, [], h', ticks)
                             | None \<Rightarrow>
                                 Some (Returned (True, pnl),
                                       [Info_trade_closed order_id result_type pnl], h',
                                       ticks)))
               else outcome_loop h' order_id start_time timeout ticks)
         else Some (Returned (False, PNone), [], h', ticks))"

fun get_trade_outcome ::
  "externals \<Rightarrow> MessageHandler \<Rightarrow> int \<Rightarrow> pyval \<Rightarrow> tick list \<Rightarrow>
   ((bool \<times> pyval) completion \<times> log_record list \<times> MessageHandler \<times> tick list) option" where
  "get_trade_outcome ext h order_id expiry [] = None"
| "get_trade_outcome ext h order_id expiry ((frames, start_time) # ticks) =
     (let h' = handle_all h frames
      in case get_remaining_secs ext (server_time h') expiry of
           Inl e \<Rightarrow> Some (Raised e, [], h', ticks)
         | Inr timeout \<Rightarrow> outcome_loop h' order_id start_time timeout ticks)"

text \<open>\<open>_validate_options_trading_parameters\<close>: \<open>None\<close> when every check passes, else the
  exception raised. The message keeps its fixed part (without the value and the quotation
  marks it prints).\<close>

definition is_blank :: "pyval \<Rightarrow> bool" where
  "is_blank asset = (case asset of PStr s \<Rightarrow> strip s = [] | _ \<Rightarrow> True)"

definition below_one :: "pyval \<Rightarrow> bool" where
  "below_one v = (case py_lt v 1 of Inl e \<Rightarrow> False | Inr b \<Rightarrow> b)"

definition validate_options_trading_parameters ::
  "externals \<Rightarrow> pyval \<Rightarrow> pyval \<Rightarrow> string \<Rightarrow> pyval \<Rightarrow> exn option" where
  "validate_options_trading_parameters ext asset amount direction expiry =
     (if is_blank asset
      then Some (InvalidTradeParametersError ''Asset name cannot be empty'')
      else if \<not> isinstance_int_float amount \<or> below_one amount
      then Some (InvalidTradeParametersError ''Minimum Bet Amount is $1'')
      else if strip (lower direction) \<noteq> ''put'' \<and> strip (lower direction) \<noteq> ''call''
      then Some (InvalidTradeParametersError ''Direction must be put or call'')
      else if \<not> isinstance_int expiry \<or> below_one expiry
      then Some (InvalidTradeParametersError ''Expiry must be positive integer'')
      else if \<not> truthy (current_account_id ext)
      then Some (TradeExecutionError ''No active account available'')
      else None)"

text \<open>\<open>str(v)\<close> of a number, as the f-string and \<open>str(amount)\<close> take it; validation has
  left only numbers.\<close>

fun str_number :: "externals \<Rightarrow> pyval \<Rightarrow> string" where
  "str_number ext (PInt n) = str_int n"
| "str_number ext (PBool b) = (if b then ''True'' else ''False'')"
| "str_number ext (PFloat f) = str_float ext f"
| "str_number ext v = []"

text \<open>\<open>_build_options_body\<close>; \<open>int(active_id)\<close> of the string just made from the asset
  id is that id.\<close>

definition build_options_body ::
  "externals \<Rightarrow> MessageHandler \<Rightarrow> pyval \<Rightarrow> pyval \<Rightarrow> pyval \<Rightarrow> string \<Rightarrow> exn + options_message"
  where
  "build_options_body ext h asset amount expiry direction =
     (case get_asset_id ext asset of
        Inl e \<Rightarrow> Inl e
      | Inr active \<Rightarrow>
     (case get_expiration ext (server_time h) expiry of
        Inl e \<Rightarrow> Inl e
      | Inr expiration \<Rightarrow>
     (case strftime_utc ext expiration of
        Inl e \<Rightarrow> Inl e
      | Inr date_formatted \<Rightarrow>
     (let active_id = str_int active;
          instrument = ''do'' @ active_id @ ''A'' @ take 8 date_formatted @ ''D''
                       @ drop 8 date_formatted @ ''00T'' @ str_number ext expiry @ ''M''
                       @ direction @ ''SPT''
      in case py_int ext (current_account_id ext) of
           Inl e \<Rightarrow> Inl e
         | Inr balance_id \<Rightarrow>
             Inr \<lparr>msg_name = ''digital-options.place-digital-option'',
                  msg_version = ''3.0'',
                  msg_body = \<lparr>user_balance_id = balance_id, instrument_id = instrument,
                              amount_str = str_number ext amount, asset_id = active,
                              instrument_index = 0\<rparr>\<rparr>))))"

definition direction_map :: "string \<rightharpoonup> string" where
  "direction_map = [''put'' \<mapsto> ''P'', ''call'' \<mapsto> ''C'']"

text \<open>
  \<open>_execute_digital_option_trade\<close>. The statements of the \<open>try\<close> block before the socket
  is used: \<open>r\<close> is the number \<open>randint(0, 100000)\<close> draws.
\<close>

definition prepare_order ::
  "externals \<Rightarrow> MessageHandler \<Rightarrow> int \<Rightarrow> pyval \<Rightarrow> pyval \<Rightarrow> pyval \<Rightarrow> pyval \<Rightarrow>
   exn + (string \<times> options_message)" where
  "prepare_order ext h r asset amount direction0 expiry =
     (case direction0 of
        PStr d \<Rightarrow>
          (let direction = lower d
           in case validate_options_trading_parameters ext asset amount direction expiry of
                Some e \<Rightarrow> Inl e
              | None \<Rightarrow>
                  (case direction_map direction of
                     None \<Rightarrow> Inl KeyError
                   | Some direction_code \<Rightarrow>
                       (let request_id = str_int r
                        in case build_options_body ext h asset amount expiry direction_code of
                             Inl e \<Rightarrow> Inl e
                           | Inr msg \<Rightarrow> Inr (request_id, msg))))
      | _ \<Rightarrow> Inl AttributeError)"

datatype effect =
    Send_message string options_message string
  | Logged log_record

text \<open>The two \<open>except\<close> clauses: both log and fall off the end, returning \<open>None\<close>.\<close>

fun except_log :: "exn \<Rightarrow> log_record" where
  "except_log (InvalidTradeParametersError m) = Error_trade_failed (InvalidTradeParametersError m)"
| "except_log (TradeExecutionError m) = Error_trade_failed (TradeExecutionError m)"
| "except_log KeyError = Error_trade_failed KeyError"
| "except_log e = Error_unexpected e"

text \<open>The result: what the call did (frames sent, records logged) and, unless the
  schedule ends while it still waits, the value returned with the handler and the
  ticks left.\<close>

definition execute_digital_option_trade ::
  "externals \<Rightarrow> MessageHandler \<Rightarrow> int \<Rightarrow> pyval \<Rightarrow> pyval \<Rightarrow> pyval \<Rightarrow> pyval \<Rightarrow> tick list \<Rightarrow>
   effect list \<times> (confirmation \<times> MessageHandler \<times> tick list) option" where
  "execute_digital_option_trade ext h r asset amount direction expiry ticks =
     (case prepare_order ext h r asset amount direction expiry of
        Inl e \<Rightarrow> ([Logged (except_log e)], Some (None, h, ticks))
      | Inr (request_id, msg) \<Rightarrow>
          (case send_message ext ''sendMessage'' msg request_id of
             Some e \<Rightarrow>
               ([Send_message ''sendMessage'' msg request_id, Logged (except_log e)],
                Some (None, h, ticks))
           | None \<Rightarrow>
               (case wait_for_order_confirmation ext h request_id expiry 10 ticks of
                  None \<Rightarrow> ([Send_message ''sendMessage'' msg request_id], None)
                | Some (Raised e, logs, h', rest) \<Rightarrow>
                    (Send_message ''sendMessage'' msg request_id # map Logged logs
                       @ [Logged (except_log e)],
                     Some (None, h', rest))
                | Some (Returned c, logs, h', rest) \<Rightarrow>
                    (Send_message ''sendMessage'' msg request_id # map Logged logs,
                     Some (c, h', rest)))))"

section \<open>telegram\_bot.py: the session report\<close>

text \<open>A finished trade as \<open>run_trade\<close> reports it (a dictionary with these five keys;
  the profit is whatever value it put there, \<open>gales\<close> a retry count); \<open>None\<close> is a
  trade that reported nothing.\<close>

record trade_result =
  res_asset :: string
  res_direction :: string
  res_result :: string
  res_profit :: pyval
  res_gales :: int

text \<open>The report: one entry a reported trade (icon, asset, direction, result, gales) and
  the three tallies. The header line and the two closing lines of the message are text
  made of nothing but these.\<close>

datatype icon = Check_mark | Cross_mark | Warning_sign

record report =
  report_lines :: "(icon \<times> string \<times> string \<times> string \<times> int) list"
  wins :: nat
  losses :: nat
  total_profit :: pyfloat

text \<open>The body of \<open>for res in results\<close>; \<open>total_profit += res['profit']\<close> is a float
  addition and may raise.\<close>

definition report_step :: "report \<Rightarrow> trade_result option \<Rightarrow> exn + report" where
  "report_step rep r =
     (case r of
        None \<Rightarrow> Inr rep
      | Some res \<Rightarrow>
          (let icon = (if res_result res = ''WIN'' then Check_mark
                       else if res_result res = ''LOSS'' then Cross_mark else Warning_sign);
               line = (icon, res_asset res, res_direction res, res_result res, res_gales res);
               rep1 = rep\<lparr>report_lines := report_lines rep @ [line]\<rparr>
           in if res_result res = ''WIN''
              then (case py_float_add (total_profit rep1) (res_profit res) of
                      Inl e \<Rightarrow> Inl e
                    | Inr acc \<Rightarrow> Inr (rep1\<lparr>wins := wins rep1 + 1, total_profit := acc\<rparr>))
              else if res_result res = ''LOSS''
              then (case py_float_add (total_profit rep1) (res_profit res) of
                      Inl e \<Rightarrow> Inl e
                    | Inr acc \<Rightarrow> Inr (rep1\<lparr>losses := losses rep1 + 1, total_profit := acc\<rparr>))
              else Inr rep1))"

fun report_loop :: "report \<Rightarrow> trade_result option list \<Rightarrow> exn + report" where
  "report_loop rep [] = Inr rep"
| "report_loop rep (r # results) =
     (case report_step rep r of
        Inl e \<Rightarrow> Inl e
      | Inr rep' \<Rightarrow> report_loop rep' results)"

text \<open>The report of \<open>process_and_schedule_signals\<close>: none when no trade was launched;
  the tallies start at \<open>0.0\<close>, \<open>0\<close> and \<open>0\<close>.\<close>

definition session_report :: "trade_result option list \<Rightarrow> exn + report option" where
  "session_report results =
     (if results = [] then Inr None
      else (case report_loop \<lparr>report_lines = [], wins = 0, losses = 0,
                               total_profit = Finite 0\<rparr> results of
              Inl e \<Rightarrow> Inl e
            | Inr rep \<Rightarrow> Inr (Some rep)))"

section \<open>Notions used to state the properties\<close>

text \<open>The lines \<open>parse_signals_from_text\<close> hands to \<open>parse_signal\<close>: each match of the
  time pattern joined with the text that follows it.\<close>

definition signal_lines :: "string \<Rightarrow> string list" where
  "signal_lines text =
     (let parts = re_split_time [] text
      in map (\<lambda>i. parts ! i @ parts ! (i + 1)) (filter odd [1..<length parts]))"

text \<open>The fields \<open>parse_signal\<close> reads: the cleaned line split at the separator.\<close>

definition signal_fields :: "string \<Rightarrow> string list" where
  "signal_fields line = split_on (CHR '';'') (clean_signal_line line)"

text \<open>No frame of the list is a placement result for request id \<open>k\<close>.\<close>

fun no_placement :: "string \<Rightarrow> push list \<Rightarrow> bool" where
  "no_placement k [] = True"
| "no_placement k (DigitalOptionPlaced request_id msg # frames) =
     (request_id \<noteq> k \<and> no_placement k frames)"
| "no_placement k (p # frames) = no_placement k frames"

text \<open>Every poll of the ticks falls before the deadline and finds no entry for \<open>k\<close>: the
  confirmation wait is still going after them.\<close>

fun unconfirmed :: "MessageHandler \<Rightarrow> string \<Rightarrow> real \<Rightarrow> real \<Rightarrow> tick list \<Rightarrow> bool" where
  "unconfirmed h k start_time timeout [] = True"
| "unconfirmed h k start_time timeout ((frames, now) # ticks) =
     (now - start_time < timeout
      \<and> dict_get (digital_options (handle_all h frames)) k = PNone
      \<and> unconfirmed (handle_all h frames) k start_time timeout ticks)"

text \<open>The handler once the frames of the ticks have been handled.\<close>

fun after_ticks :: "MessageHandler \<Rightarrow> tick list \<Rightarrow> MessageHandler" where
  "after_ticks h [] = h"
| "after_ticks h ((frames, now) # ticks) = after_ticks (handle_all h frames) ticks"

text \<open>The record \<open>get_trade_outcome\<close> looks for: a payload stored for the order id
  whose \<open>status\<close> is \<open>closed\<close>.\<close>

definition closed_record :: "MessageHandler \<Rightarrow> int \<Rightarrow> bool" where
  "closed_record h order_id =
     (let order_data = dict_get_default (position_info h) order_id Map.empty
      in order_data \<noteq> Map.empty \<and> dict_get order_data ''status'' = PStr ''closed'')"



text \<open>The results that reported something, and the two outcomes the report counts.\<close>

definition reported :: "trade_result option list \<Rightarrow> trade_result list" where
  "reported results = List.map_filter (\<lambda>r. r) results"

definition is_win :: "trade_result \<Rightarrow> bool" where
  "is_win res = (res_result res = ''WIN'')"

definition is_loss :: "trade_result \<Rightarrow> bool" where
  "is_loss res = (res_result res = ''LOSS'')"

text \<open>The float sum of a list of profits, taken from the left, starting at \<open>acc\<close>.\<close>

fun accumulate :: "pyfloat \<Rightarrow> pyval list \<Rightarrow> exn + pyfloat" where
  "accumulate acc [] = Inr acc"
| "accumulate acc (profit # profits) =
     (case py_float_add acc profit of
        Inl e \<Rightarrow> Inl e
      | Inr acc' \<Rightarrow> accumulate acc' profits)"

text \<open>A concrete environment, to run the definitions on examples: two assets, an
  account, helpers that answer constants and a socket that accepts every frame.\<close>

definition sample_externals :: externals where
  "sample_externals =
     \<lparr>UNDERLYING_ASSESTS = [''EURUSD'' \<mapsto> 1, ''GBPUSD'' \<mapsto> 5],
      current_account_id = PInt 12345,
      get_expiration = (\<lambda>st e. Inr 1767225600),
      get_remaining_secs = (\<lambda>st e. Inr 60),
      strftime_utc = (\<lambda>t. Inr ''202601010000''),
      py_int = (\<lambda>v. case v of PInt n \<Rightarrow> Inr n | _ \<Rightarrow> Inl TypeError),
      str_float = (\<lambda>f. case f of Finite x \<Rightarrow> ''1.0'' | PosInf \<Rightarrow> ''inf''
                         | NegInf \<Rightarrow> ''-inf'' | NaN \<Rightarrow> ''nan''),
      send_message = (\<lambda>name msg request_id. None)\<rparr>"

section \<open>Float arithmetic on examples\<close>

lemma binade_samples:
  "binade 1 = 0" "binade 4 = 2" "binade 5 = 2" "binade 10 = 3"
  "binade 10000000000000000 = 53" "binade 10000000000000001 = 53"
  by (simp_all add: binade_def bit_length.simps)

lemma round_double_samples:
  "round_double 0 = Finite 0" "round_double 1 = Finite 1" "round_double 4 = Finite 4"
  "round_double 5 = Finite 5" "round_double (- 5) = Finite (- 5)"
  "round_double 10 = Finite 10"
  "round_double 10000000000000000 = Finite 10000000000000000"
  "round_double (- 10000000000000000) = Finite (- 10000000000000000)"
  "round_double 10000000000000001 = Finite 10000000000000000"
  by (simp_all add: round_double_def binade_samples pow2_def round_half_even_def Let_def)

section \<open>The signal parser never raises\<close>

lemma odd_length_re_split_time: "odd (length (re_split_time seg s))"
  by (induction seg s rule: re_split_time.induct) (auto split: option.splits)

lemma text_loop_map_filter:
  "\<forall>i \<in> set is. Suc i < length parts \<Longrightarrow>
   text_loop parts acc is =
     Inr (acc @ List.map_filter parse_signal (map (\<lambda>i. parts ! i @ parts ! (i + 1)) is))"
  by (induction "is" arbitrary: acc) (auto simp: map_filter_simps split: option.splits)

lemma odd_index_in_range:
  assumes "odd n" and "i \<in> set (filter odd [1..<n])"
  shows "Suc i < n"
proof -
  from assms have "i < n" and "odd i" by auto
  with \<open>odd n\<close> have "Suc i \<noteq> n" by auto
  with \<open>i < n\<close> show ?thesis by simp
qed

lemma parse_signals_from_text_total:
  "parse_signals_from_text text = Inr (List.map_filter parse_signal (signal_lines text))"
proof -
  let ?parts = "re_split_time [] text"
  have "\<forall>i \<in> set (filter odd [1..<length ?parts]). Suc i < length ?parts"
    using odd_index_in_range [OF odd_length_re_split_time] by blast
  from text_loop_map_filter [OF this, of "[]"] show ?thesis
    by (simp add: parse_signals_from_text_def signal_lines_def Let_def)
qed

lemma file_loop_map_filter:
  "file_loop acc lines = acc @ List.map_filter parse_signal lines"
  by (induction lines arbitrary: acc) (auto simp: map_filter_simps split: option.splits)

lemma length_map_filter_le: "length (List.map_filter f xs) \<le> length xs"
  by (simp add: List.map_filter_def)

lemma parse_signal_Some:
  assumes "parse_signal line = Some sig"
  shows "4 \<le> length (signal_fields line)
       \<and> fullmatch_time (strip (signal_fields line ! 0))
       \<and> (upper (signal_fields line ! 2) = ''CALL'' \<or> upper (signal_fields line ! 2) = ''PUT'')
       \<and> list_ex is_digit (signal_fields line ! 3)"
  using assms
  by (auto simp: parse_signal_def parse_signal_body_def signal_fields_def Let_def int_of_digits_def
        list_ex_iff filter_empty_conv
        split: sum.splits if_splits)

text \<open>
  Claim C8. Parsing a text never raises: \<open>parse_signals_from_text\<close> always returns a
  list, namely the signals of the lines it hands to \<open>parse_signal\<close>, in order, each line
  giving one signal or none; so it returns at most as many signals as lines, and so
  does \<open>parse_signals_from_file\<close> on the lines of a file. A line gives a signal only if
  it has four fields, its time matches \<open>H(H):MM\<close>, its direction is \<open>CALL\<close> or \<open>PUT\<close> and
  its expiry field holds a digit: a line failing any of these is skipped.
\<close>

theorem parsing_never_raises:
  "parse_signals_from_text text = Inr (List.map_filter parse_signal (signal_lines text))
   \<and> length (List.map_filter parse_signal (signal_lines text)) \<le> length (signal_lines text)
   \<and> parse_signals_from_file (Some lines) = List.map_filter parse_signal lines
   \<and> length (parse_signals_from_file (Some lines)) \<le> length lines
   \<and> (parse_signal line \<noteq> None \<longrightarrow>
        4 \<le> length (signal_fields line)
        \<and> fullmatch_time (strip (signal_fields line ! 0))
        \<and> (upper (signal_fields line ! 2) = ''CALL'' \<or> upper (signal_fields line ! 2) = ''PUT'')
        \<and> list_ex is_digit (signal_fields line ! 3))"
  using parse_signal_Some [of line]
  by (auto simp: parse_signals_from_text_total parse_signals_from_file_def
        file_loop_map_filter length_map_filter_le)

theorem parsing_never_raises_witness:
  "parse_signals_from_text ''03:40;EURAUD;CALL;5 03:45;EURUSD;SELL;5 03:50;GBPUSD;PUT;x'' =
     Inr [\<lparr>sig_time = ''03:40'', sig_pair = ''EURAUD'', sig_direction = ''CALL'',
           sig_expiry = 5\<rparr>]
   \<and> parse_signal ''03:40;EURAUD;CALL;5'' \<noteq> None
   \<and> 4 \<le> length (signal_fields ''03:40;EURAUD;CALL;5'')
   \<and> fullmatch_time (strip (signal_fields ''03:40;EURAUD;CALL;5'' ! 0))
   \<and> list_ex is_digit (signal_fields ''03:40;EURAUD;CALL;5'' ! 3)"
proof -
  have some: "parse_signal ''03:40;EURAUD;CALL;5'' \<noteq> None"
    by code_simp
  have lines: "signal_lines ''03:40;EURAUD;CALL;5 03:45;EURUSD;SELL;5 03:50;GBPUSD;PUT;x'' =
      [''03:40;EURAUD;CALL;5 '', ''03:45;EURUSD;SELL;5 '', ''03:50;GBPUSD;PUT;x'']"
    by code_simp
  have sigs: "List.map_filter parse_signal
      [''03:40;EURAUD;CALL;5 '', ''03:45;EURUSD;SELL;5 '', ''03:50;GBPUSD;PUT;x''] =
      [\<lparr>sig_time = ''03:40'', sig_pair = ''EURAUD'', sig_direction = ''CALL'',
        sig_expiry = 5\<rparr>]"
    by code_simp
  from parsing_never_raises
    [of "''03:40;EURAUD;CALL;5 03:45;EURUSD;SELL;5 03:50;GBPUSD;PUT;x''" "[]"
        "''03:40;EURAUD;CALL;5''"] some lines sigs
  show ?thesis by simp
qed

section \<open>Cleaning a signal line\<close>

text \<open>
  Claim C9. The line \<open>O3:4O;EURAUD;CALL;5\<close>: the letter O before the digit 3 becomes a
  zero, the letter O after the digit 4 stays, so the cleaned line is
  \<open>03:4O;EURAUD;CALL;5\<close>, its time does not match and \<open>parse_signal\<close> returns \<open>None\<close>;
  the line \<open>03:40;EURAUD;CALL;5\<close> parses.
\<close>

theorem clean_signal_line_keeps_O_after_digit:
  "clean_signal_line ''O3:4O;EURAUD;CALL;5'' = ''03:4O;EURAUD;CALL;5''
   \<and> parse_signal ''O3:4O;EURAUD;CALL;5'' = None
   \<and> parse_signal ''03:40;EURAUD;CALL;5'' =
       Some \<lparr>sig_time = ''03:40'', sig_pair = ''EURAUD'', sig_direction = ''CALL'',
             sig_expiry = 5\<rparr>"
  by code_simp

lemma strip_replace_char:
  "strip (replace_char (CHR ''i'') (CHR '';'') s) = replace_char (CHR ''i'') (CHR '';'') (strip s)"
proof -
  have d: "dropWhile is_space (replace_char (CHR ''i'') (CHR '';'') t) =
           replace_char (CHR ''i'') (CHR '';'') (dropWhile is_space t)" for t
    by (induction t) (auto simp: replace_char_def is_space_def)
  have r: "rev (replace_char (CHR ''i'') (CHR '';'') t) =
           replace_char (CHR ''i'') (CHR '';'') (rev t)" for t
    by (simp add: replace_char_def rev_map)
  show ?thesis
    unfolding strip_def by (simp add: d r)
qed

lemma replace_char_idem:
  "replace_char (CHR ''i'') (CHR '';'') (replace_char (CHR ''i'') (CHR '';'') s) =
   replace_char (CHR ''i'') (CHR '';'') s"
  by (simp add: replace_char_def)

lemma set_sub_O_digit: "set (sub_O_digit s) \<subseteq> insert (CHR ''0'') (set s)"
  by (induction s rule: sub_O_digit.induct) auto

lemma set_sub_O_colon: "set (sub_O_colon s) \<subseteq> insert (CHR ''0'') (insert (CHR '':'') (set s))"
proof (induction s rule: sub_O_colon.induct)
  case 1
  then show ?case by simp
next
  case (2 c cs)
  have "set (tl xs) \<subseteq> set xs" for xs :: string
    by (cases xs) auto
  moreover have "set (dropWhile is_space cs) \<subseteq> set cs"
    by (auto dest: set_dropWhileD)
  ultimately have sub: "set (tl (dropWhile is_space cs)) \<subseteq> set cs"
    by blast
  show ?case
  proof (cases "is_O c \<and> (case dropWhile is_space cs of [] \<Rightarrow> False | x # xs \<Rightarrow> x = CHR '':'')")
    case True
    with 2 have "set (sub_O_colon (tl (dropWhile is_space cs)))
        \<subseteq> insert (CHR ''0'') (insert (CHR '':'') (set (tl (dropWhile is_space cs))))"
      by simp
    with sub have "set (sub_O_colon (tl (dropWhile is_space cs)))
        \<subseteq> insert (CHR ''0'') (insert (CHR '':'') (set cs))"
      by blast
    with True show ?thesis by auto
  next
    case False
    with 2 have "set (sub_O_colon cs) \<subseteq> insert (CHR ''0'') (insert (CHR '':'') (set cs))"
      by simp
    with False show ?thesis by auto
  qed
qed

lemma match_time_append: "match_time s = Some (m, r) \<Longrightarrow> s = m @ r"
  by (auto simp: match_time_def split: list.splits if_splits)

lemma match_pair_append: "match_pair s = Some (m, r) \<Longrightarrow> s = m @ r"
  by (auto simp: match_pair_def split: if_splits)

lemma match_literal_append: "match_literal lit s = Some (m, r) \<Longrightarrow> s = m @ r"
  by (auto simp: match_literal_def split: if_splits) (metis append_take_drop_id)

lemma match_digits_append: "match_digits s = Some (m, r) \<Longrightarrow> s = m @ r"
  by (auto simp: match_digits_def split: if_splits)

lemma match_token_append: "match_token s = Some (m, r) \<Longrightarrow> s = m @ r"
  unfolding match_token_def
  by (auto split: option.splits
           dest: match_time_append match_pair_append match_literal_append
                 match_digits_append)

lemma set_findall_tokens: "t \<in> set (findall_tokens s) \<Longrightarrow> set t \<subseteq> set s"
proof (induction s rule: findall_tokens.induct)
  case 1
  then show ?case by simp
next
  case (2 c cs)
  show ?case
  proof (cases "match_token (c # cs)")
    case None
    with 2 show ?thesis by auto
  next
    case (Some mr)
    obtain m r where mr: "mr = (m, r)" by (cases mr)
    from Some mr have eq: "c # cs = m @ r" by (auto dest: match_token_append)
    from 2 Some mr have "t = m \<or> t \<in> set (findall_tokens r)" by auto
    then show ?thesis
    proof
      assume "t = m" with eq show ?thesis by (metis Un_iff set_append subsetI)
    next
      assume "t \<in> set (findall_tokens r)"
      with 2 Some mr have "set t \<subseteq> set r" by auto
      with eq show ?thesis by (metis Un_iff set_append subsetD subsetI)
    qed
  qed
qed

lemma set_join: "set (join sep ps) \<subseteq> insert sep (\<Union> (set ` set ps))"
  by (induction sep ps rule: join.induct) auto

lemma no_i_clean_signal_line: "CHR ''i'' \<notin> set (clean_signal_line line)"
proof -
  let ?l2 = "replace_char (CHR ''i'') (CHR '';'') (strip line)"
  let ?l5 = "remove_spaces (sub_O_colon (sub_O_digit ?l2))"
  have "CHR ''i'' \<notin> set ?l2"
    by (auto simp: replace_char_def)
  then have l5: "CHR ''i'' \<notin> set ?l5"
    using set_sub_O_colon [of "sub_O_digit ?l2"] set_sub_O_digit [of ?l2]
    by (auto simp: remove_spaces_def)
  have "CHR ''i'' \<notin> set (join (CHR '';'') (findall_tokens ?l5))"
    using set_join [of "CHR '';''" "findall_tokens ?l5"] set_findall_tokens [of _ ?l5] l5
    by auto
  with l5 show ?thesis by (simp add: clean_signal_line_def Let_def)
qed

lemma length_split_on: "length (split_on sep s) = Suc (count_list s sep)"
  by (induction s) (auto split: list.splits)

lemma count_sub_O_digit: "count_list (sub_O_digit s) (CHR '';'') = count_list s (CHR '';'')"
  by (induction s rule: sub_O_digit.induct) (auto simp: is_O_def)

lemma count_dropWhile_space:
  "\<not> is_space x \<Longrightarrow> count_list (dropWhile is_space s) x = count_list s x"
  by (induction s) auto

lemma count_sub_O_colon: "count_list (sub_O_colon s) (CHR '';'') = count_list s (CHR '';'')"
proof (induction s rule: sub_O_colon.induct)
  case 1
  then show ?case by simp
next
  case (2 c cs)
  have ns: "\<not> is_space (CHR '';'')" by (simp add: is_space_def)
  show ?case
  proof (cases "is_O c \<and> (case dropWhile is_space cs of [] \<Rightarrow> False | x # xs \<Rightarrow> x = CHR '':'')")
    case True
    then obtain xs where d: "dropWhile is_space cs = CHR '':'' # xs"
      by (auto split: list.splits)
    from True 2 have "count_list (sub_O_colon (tl (dropWhile is_space cs))) (CHR '';'')
        = count_list (tl (dropWhile is_space cs)) (CHR '';'')" by simp
    also have "\<dots> = count_list (dropWhile is_space cs) (CHR '';'')" using d by simp
    also have "\<dots> = count_list cs (CHR '';'')" by (rule count_dropWhile_space [OF ns])
    finally show ?thesis using True by (auto simp: is_O_def)
  next
    case False
    with 2 show ?thesis by auto
  qed
qed

lemma count_remove_spaces:
  "\<not> is_space x \<Longrightarrow> count_list (remove_spaces s) x = count_list s x"
  by (induction s) (auto simp: remove_spaces_def)

lemma count_list_rev: "count_list (rev s) x = count_list s x"
  by (induction s) auto

lemma count_strip: "\<not> is_space x \<Longrightarrow> count_list (strip s) x = count_list s x"
  by (simp add: strip_def count_list_rev count_dropWhile_space)

lemma count_replace_char:
  "count_list (replace_char (CHR ''i'') (CHR '';'') s) (CHR '';'') =
   count_list s (CHR '';'') + count_list s (CHR ''i'')"
  by (induction s) (auto simp: replace_char_def)

lemma count_list_pos_iff: "0 < count_list s x \<longleftrightarrow> x \<in> set s"
  by (induction s) auto

lemma fields_of_line_with_i:
  assumes "CHR ''i'' \<in> set line"
  shows "length (signal_fields line) = 1 + count_list line (CHR '';'') + count_list line (CHR ''i'')"
proof -
  have ns: "\<not> is_space (CHR '';'')" "\<not> is_space (CHR ''i'')" by (simp_all add: is_space_def)
  let ?l5 = "remove_spaces (sub_O_colon (sub_O_digit
               (replace_char (CHR ''i'') (CHR '';'') (strip line))))"
  have c5: "count_list ?l5 (CHR '';'') = count_list line (CHR '';'') + count_list line (CHR ''i'')"
    by (simp add: count_remove_spaces count_sub_O_colon count_sub_O_digit count_replace_char
          count_strip ns)
  from assms have "0 < count_list line (CHR ''i'')" by (simp add: count_list_pos_iff)
  with c5 have "0 < count_list ?l5 (CHR '';'')" by simp
  then have "CHR '';'' \<in> set ?l5" by (simp only: count_list_pos_iff)
  then have "clean_signal_line line = ?l5" by (simp add: clean_signal_line_def Let_def)
  with c5 show ?thesis by (simp add: signal_fields_def length_split_on)
qed

text \<open>
  Claim C10. Cleaning turns every lowercase \<open>i\<close> of the raw line into the separator
  before anything else is normalised: cleaning the line and cleaning the line whose
  \<open>i\<close>'s are already separators give the same result, no \<open>i\<close> survives, and a line
  holding an \<open>i\<close> is split into one field more than it has separators and \<open>i\<close>'s
  together, so each \<open>i\<close> adds a field boundary.
\<close>

theorem clean_signal_line_i_is_separator:
  "clean_signal_line line = clean_signal_line (replace_char (CHR ''i'') (CHR '';'') line)
   \<and> CHR ''i'' \<notin> set (clean_signal_line line)
   \<and> (CHR ''i'' \<in> set line \<longrightarrow>
        length (signal_fields line) = 1 + count_list line (CHR '';'') + count_list line (CHR ''i''))"
  using fields_of_line_with_i [of line]
  by (simp add: no_i_clean_signal_line)
     (simp add: clean_signal_line_def strip_replace_char replace_char_idem)

theorem clean_signal_line_i_is_separator_witness:
  "CHR ''i'' \<in> set ''03:40;EURAUD;CALL;5 min''
   \<and> signal_fields ''03:40;EURAUD;CALL;5 min'' = [''03:40'', ''EURAUD'', ''CALL'', ''5m'', ''n'']
   \<and> length (signal_fields ''03:40;EURAUD;CALL;5 min'') = 5"
proof -
  have i: "CHR ''i'' \<in> set ''03:40;EURAUD;CALL;5 min''"
    by simp
  have f: "signal_fields ''03:40;EURAUD;CALL;5 min'' = [''03:40'', ''EURAUD'', ''CALL'', ''5m'', ''n'']"
    by code_simp
  from clean_signal_line_i_is_separator [of "''03:40;EURAUD;CALL;5 min''"] i
  have "length (signal_fields ''03:40;EURAUD;CALL;5 min'') = 5"
    by simp
  with i f show ?thesis by simp
qed

section \<open>Placement results and the confirmation wait\<close>

lemma handle_all_simps [simp]:
  "handle_all h [] = h"
  "handle_all h (p # frames) = handle_all (handle_message h p) frames"
  "handle_all h (frames @ frames2) = handle_all (handle_all h frames) frames2"
  by (simp_all add: handle_all_def)

lemma digital_options_handlers [simp]:
  "digital_options (handle_server_time h v) = digital_options h"
  "digital_options (handle_digital_option_placed h request_id msg) =
     (digital_options h)(request_id \<mapsto>
        (if dict_get msg ''id'' \<noteq> PNone then dict_get msg ''id''
         else dict_get msg ''message''))"
  "digital_options (handle_position_changed h order_id msg) = digital_options h"
  "digital_options (handle_binary_option_opened h request_id msg) = digital_options h"
  "digital_options (handle_binary_option_closed h order_id msg) = digital_options h"
  by (simp_all add: handle_server_time_def handle_digital_option_placed_def
        handle_position_changed_def handle_binary_option_opened_def
        handle_binary_option_closed_def Let_def)

lemma no_placement_keeps:
  "no_placement k frames \<Longrightarrow>
   digital_options (handle_all h frames) k = digital_options h k"
proof (induction frames arbitrary: h)
  case Nil
  then show ?case by simp
next
  case (Cons p frames)
  then show ?case by (cases p) auto
qed

lemma placed_then_quiet:
  "no_placement k later \<Longrightarrow>
   digital_options (handle_all h (earlier @ DigitalOptionPlaced k msg # later)) k =
     Some (if dict_get msg ''id'' \<noteq> PNone then dict_get msg ''id''
           else dict_get msg ''message'')"
  by (simp add: no_placement_keeps)

lemma confirmation_loop_skip:
  "unconfirmed h k start_time timeout pre \<Longrightarrow>
   confirmation_loop ext h k expiry start_time timeout (pre @ ticks) =
     confirmation_loop ext (after_ticks h pre) k expiry start_time timeout ticks"
  by (induction pre arbitrary: h) (auto simp: Let_def)

lemma confirmation_loop_poll:
  assumes "now - start_time < timeout"
      and "digital_options (handle_all h frames) k = Some v" and "v \<noteq> PNone"
  shows "confirmation_loop ext h k expiry start_time timeout ((frames, now) # rest) =
           (if isinstance_int v then
              (case get_remaining_secs ext (server_time (handle_all h frames)) expiry of
                 Inl e \<Rightarrow> Some (Raised e, [], handle_all h frames, rest)
               | Inr expires_in \<Rightarrow>
                   Some (Returned (Some (True, v)), [Info_order_executed v expires_in],
                         handle_all h frames, rest))
            else Some (Returned (Some (False, v)), [Error_order_failed v],
                       handle_all h frames, rest))"
  using assms by (simp add: Let_def dict_get_def split: sum.split)

text \<open>
  Claim C1, as the code has it. A placement-result frame for request id \<open>k\<close> is handled
  and no later frame for \<open>k\<close> follows before the next poll, which the clock puts before
  the timeout. The handler stores under \<open>k\<close> the payload's \<open>id\<close> when that is not null,
  and its \<open>message\<close> otherwise (\<open>v\<close> below). When \<open>v\<close> is not null, the wait on \<open>k\<close>
  returns at that poll: \<open>(True, v)\<close> when \<open>v\<close> is an \<open>int\<close>, \<open>(False, v)\<close> for every other
  value. So an integer \<open>id\<close> is a success with that id, and a payload with no \<open>id\<close> and
  a \<open>message\<close> text is a failure with that text; an \<open>id\<close> that is not an \<open>int\<close> is a
  failure carrying the id. When \<open>v\<close> is null (neither \<open>id\<close> nor \<open>message\<close>), the poll
  takes the entry for no answer and the wait goes on with the readings that remain.
  This holds for a wait that starts after the frame was handled, and for a wait already
  polling when the frame arrives (\<open>pre\<close>: the polls that found nothing). The helper
  \<open>get_remaining_secs\<close>, called for the log line, is taken not to raise.
\<close>

theorem wait_answers_placement_push:
  assumes clock: "now - start_time < timeout"
      and helper: "\<forall>st. \<exists>secs. get_remaining_secs ext st expiry = Inr secs"
      and stored:
        "v = (if dict_get msg ''id'' \<noteq> PNone then dict_get msg ''id''
              else dict_get msg ''message'')"
      and quiet: "no_placement k frames0" "no_placement k frames1" "no_placement k later"
      and idle: "unconfirmed (handle_all h frames0) k start_time timeout pre"
  shows "(v \<noteq> PNone \<longrightarrow>
            (\<exists>logs h'.
               wait_for_order_confirmation ext (handle_message h (DigitalOptionPlaced k msg)) k
                 expiry timeout ((frames0, start_time) # (frames1, now) # rest)
               = Some (Returned (Some (isinstance_int v, v)), logs, h', rest))
          \<and> (\<exists>logs h'.
               wait_for_order_confirmation ext h k expiry timeout
                 ((frames0, start_time)
                  # pre @ (earlier @ DigitalOptionPlaced k msg # later, now) # rest)
               = Some (Returned (Some (isinstance_int v, v)), logs, h', rest)))
       \<and> (v = PNone \<longrightarrow>
            wait_for_order_confirmation ext (handle_message h (DigitalOptionPlaced k msg)) k
              expiry timeout ((frames0, start_time) # (frames1, now) # rest)
            = confirmation_loop ext
                (handle_all (handle_all (handle_message h (DigitalOptionPlaced k msg)) frames0)
                   frames1)
                k expiry start_time timeout rest
          \<and> wait_for_order_confirmation ext h k expiry timeout
              ((frames0, start_time)
               # pre @ (earlier @ DigitalOptionPlaced k msg # later, now) # rest)
            = confirmation_loop ext
                (handle_all (after_ticks (handle_all h frames0) pre)
                   (earlier @ DigitalOptionPlaced k msg # later))
                k expiry start_time timeout rest)"
proof -
  have poll: "\<exists>logs h'. confirmation_loop ext g k expiry start_time timeout ((frames, now) # rest)
                = Some (Returned (Some (isinstance_int v, v)), logs, h', rest)"
    if "digital_options (handle_all g frames) k = Some v" and "v \<noteq> PNone" for g frames
  proof -
    from helper obtain secs
      where "get_remaining_secs ext (server_time (handle_all g frames)) expiry = Inr secs"
      by blast
    with confirmation_loop_poll [OF clock that, of ext expiry rest]
    show ?thesis by auto
  qed
  have pass: "confirmation_loop ext g k expiry start_time timeout ((frames, now) # rest)
                = confirmation_loop ext (handle_all g frames) k expiry start_time timeout rest"
    if "digital_options (handle_all g frames) k = Some v" and "v = PNone" for g frames
    using clock that by (simp add: Let_def dict_get_def)
  have first: "digital_options
                 (handle_all (handle_all (handle_message h (DigitalOptionPlaced k msg)) frames0)
                    frames1) k = Some v"
    using quiet(1,2) stored by (simp add: no_placement_keeps)
  have second: "digital_options
                  (handle_all (after_ticks (handle_all h frames0) pre)
                     (earlier @ DigitalOptionPlaced k msg # later)) k = Some v"
    using placed_then_quiet [OF quiet(3)] stored by simp
  have w1: "wait_for_order_confirmation ext (handle_message h (DigitalOptionPlaced k msg)) k
              expiry timeout ((frames0, start_time) # (frames1, now) # rest)
            = confirmation_loop ext
                (handle_all (handle_message h (DigitalOptionPlaced k msg)) frames0)
                k expiry start_time timeout ((frames1, now) # rest)"
    by simp
  have w2: "wait_for_order_confirmation ext h k expiry timeout
              ((frames0, start_time)
               # pre @ (earlier @ DigitalOptionPlaced k msg # later, now) # rest)
            = confirmation_loop ext (after_ticks (handle_all h frames0) pre)
                k expiry start_time timeout
                ((earlier @ DigitalOptionPlaced k msg # later, now) # rest)"
    using confirmation_loop_skip [OF idle] by simp
  show ?thesis
    unfolding w1 w2
    using poll [OF first] poll [OF second] pass [OF first] pass [OF second]
    by blast
qed

text \<open>Instances: an integer id answered to a wait that starts after the push, a
  rejection text answered to a wait already polling.\<close>

theorem wait_answers_placement_push_witness:
  "(\<exists>logs h'.
      wait_for_order_confirmation sample_externals
        (handle_message MessageHandler_init (DigitalOptionPlaced ''7'' [''id'' \<mapsto> PInt 42]))
        ''7'' (PInt 1) 10 [([], 0), ([], 1)]
      = Some (Returned (Some (True, PInt 42)), logs, h', []))
   \<and> (\<exists>logs h'.
      wait_for_order_confirmation sample_externals MessageHandler_init ''7'' (PInt 1) 10
        [([], 0), ([], 1 / 2),
         ([DigitalOptionPlaced ''7'' [''message'' \<mapsto> PStr ''Market closed'']], 1)]
      = Some (Returned (Some (False, PStr ''Market closed'')), logs, h', []))"
proof -
  have clock: "(1::real) - 0 < 10"
    by simp
  have helper: "\<forall>st. \<exists>secs. get_remaining_secs sample_externals st (PInt 1) = Inr secs"
    by (simp add: sample_externals_def)
  have placed:
    "PInt 42 = (if dict_get [''id'' \<mapsto> PInt 42] ''id'' \<noteq> PNone
                then dict_get [''id'' \<mapsto> PInt 42] ''id''
                else dict_get [''id'' \<mapsto> PInt 42] ''message'')"
    by (simp add: dict_get_def)
  have rejected:
    "PStr ''Market closed''
       = (if dict_get [''message'' \<mapsto> PStr ''Market closed''] ''id'' \<noteq> PNone
          then dict_get [''message'' \<mapsto> PStr ''Market closed''] ''id''
          else dict_get [''message'' \<mapsto> PStr ''Market closed''] ''message'')"
    by (simp add: dict_get_def)
  have quiet: "no_placement ''7'' []"
    by simp
  have idle0: "unconfirmed (handle_all MessageHandler_init []) ''7'' 0 10 []"
    by simp
  have idle1: "unconfirmed (handle_all MessageHandler_init []) ''7'' 0 10 [([], 1 / 2)]"
    by (simp add: MessageHandler_init_def dict_get_def)
  from wait_answers_placement_push
         [where h = MessageHandler_init and rest = "[]" and earlier = "[]",
          OF clock helper placed quiet quiet quiet idle0]
       wait_answers_placement_push
         [where h = MessageHandler_init and rest = "[]" and earlier = "[]",
          OF clock helper rejected quiet quiet quiet idle1]
  show ?thesis by simp
qed

text \<open>Against claim C1 as stated. A payload with neither \<open>id\<close> nor \<open>message\<close> carries
  no numeric identifier: the handler stores \<open>None\<close>, every poll takes that for no
  answer yet, and the wait ends in its timeout, returning \<open>None\<close> and no failure. A
  payload whose \<open>id\<close> is the number \<open>42.0\<close> carries a numeric identifier: the wait
  returns a failure with it, since a float is not an \<open>int\<close>.\<close>

theorem placement_push_outside_the_two_cases:
  "wait_for_order_confirmation sample_externals
     (handle_message MessageHandler_init (DigitalOptionPlaced ''7'' Map.empty))
     ''7'' (PInt 1) 10 [([], 0), ([], 1), ([], 10)]
   = Some (Returned None, [Error_confirmation_timeout 10],
           handle_message MessageHandler_init (DigitalOptionPlaced ''7'' Map.empty), [])
   \<and> wait_for_order_confirmation sample_externals
       (handle_message MessageHandler_init
          (DigitalOptionPlaced ''7'' [''id'' \<mapsto> PFloat (Finite 42), ''message'' \<mapsto> PStr ''x'']))
       ''7'' (PInt 1) 10 [([], 0), ([], 1)]
     = Some (Returned (Some (False, PFloat (Finite 42))),
             [Error_order_failed (PFloat (Finite 42))],
             handle_message MessageHandler_init
               (DigitalOptionPlaced ''7'' [''id'' \<mapsto> PFloat (Finite 42), ''message'' \<mapsto> PStr ''x'']),
             [])"
  by (simp add: dict_get_def Let_def)

section \<open>The registry keeps its entries\<close>

lemma dom_handle_message:
  "dom (digital_options h) \<subseteq> dom (digital_options (handle_message h p))"
  "dom (position_info h) \<subseteq> dom (position_info (handle_message h p))"
  by (cases p; auto simp: handle_server_time_def handle_digital_option_placed_def
        handle_position_changed_def handle_binary_option_opened_def
        handle_binary_option_closed_def Let_def)+

lemma dom_handle_all:
  "dom (digital_options h) \<subseteq> dom (digital_options (handle_all h frames))
   \<and> dom (position_info h) \<subseteq> dom (position_info (handle_all h frames))"
proof (induction frames arbitrary: h)
  case Nil
  then show ?case by simp
next
  case (Cons p frames)
  from order_trans [OF dom_handle_message(1) conjunct1 [OF Cons]]
       order_trans [OF dom_handle_message(2) conjunct2 [OF Cons]]
  show ?case by simp
qed

lemma dom_after_ticks:
  "dom (digital_options h) \<subseteq> dom (digital_options (after_ticks h ticks))
   \<and> dom (position_info h) \<subseteq> dom (position_info (after_ticks h ticks))"
proof (induction ticks arbitrary: h)
  case Nil
  then show ?case by simp
next
  case (Cons t ticks)
  obtain frames now where t: "t = (frames, now)" by (cases t)
  from order_trans [OF conjunct1 [OF dom_handle_all] conjunct1 [OF Cons]]
       order_trans [OF conjunct2 [OF dom_handle_all] conjunct2 [OF Cons]] t
  show ?case by simp
qed

lemma quiet_after_ticks:
  "list_all (\<lambda>t. no_placement k (fst t)) ticks \<Longrightarrow>
   digital_options (after_ticks h ticks) k = digital_options h k"
  by (induction ticks arbitrary: h) (auto simp: no_placement_keeps)

lemma confirmation_loop_consumes:
  "confirmation_loop ext h k expiry start_time timeout ticks = Some (res, logs, h', rest) \<Longrightarrow>
   \<exists>used. ticks = used @ rest \<and> h' = after_ticks h used"
proof (induction ticks arbitrary: h)
  case Nil
  then show ?case by simp
next
  case (Cons t ticks)
  obtain frames now where t: "t = (frames, now)" by (cases t)
  let ?h = "handle_all h frames"
  show ?case
  proof (cases "now - start_time < timeout \<and> dict_get (digital_options ?h) k = PNone")
    case True
    with Cons.prems t
    have "confirmation_loop ext ?h k expiry start_time timeout ticks = Some (res, logs, h', rest)"
      by (simp add: Let_def)
    from Cons.IH [OF this] obtain used where "ticks = used @ rest" "h' = after_ticks ?h used"
      by blast
    with t have "t # ticks = ((frames, now) # used) @ rest \<and> h' = after_ticks h ((frames, now) # used)"
      by simp
    then show ?thesis by blast
  next
    case False
    with Cons.prems t have "rest = ticks \<and> h' = ?h"
      by (auto simp: Let_def split: if_splits sum.splits)
    with t have "t # ticks = [(frames, now)] @ rest \<and> h' = after_ticks h [(frames, now)]"
      by simp
    then show ?thesis by blast
  qed
qed

lemma wait_for_order_confirmation_consumes:
  assumes "wait_for_order_confirmation ext h k expiry timeout ticks = Some (res, logs, h', rest)"
  shows "\<exists>used. ticks = used @ rest \<and> h' = after_ticks h used"
proof (cases ticks)
  case Nil
  with assms show ?thesis by simp
next
  case (Cons t ticks')
  obtain frames start_time where t: "t = (frames, start_time)" by (cases t)
  from assms Cons t confirmation_loop_consumes
    [of ext "handle_all h frames" k expiry start_time timeout ticks' res logs h' rest]
  obtain used where "ticks' = used @ rest" "h' = after_ticks (handle_all h frames) used"
    by auto
  with Cons t have "ticks = ((frames, start_time) # used) @ rest
      \<and> h' = after_ticks h ((frames, start_time) # used)"
    by simp
  then show ?thesis by blast
qed

lemma outcome_loop_unclosed:
  "now - start_time < timeout + 3 \<Longrightarrow> \<not> closed_record (handle_all h frames) order_id \<Longrightarrow>
   outcome_loop h order_id start_time timeout ((frames, now) # ticks) =
     outcome_loop (handle_all h frames) order_id start_time timeout ticks"
  by (auto simp: closed_record_def Let_def)

lemma outcome_loop_consumes:
  "outcome_loop h order_id start_time timeout ticks = Some (res, logs, h', rest) \<Longrightarrow>
   \<exists>used. ticks = used @ rest \<and> h' = after_ticks h used"
proof (induction ticks arbitrary: h)
  case Nil
  then show ?case by simp
next
  case (Cons t ticks)
  obtain frames now where t: "t = (frames, now)" by (cases t)
  let ?h = "handle_all h frames"
  show ?case
  proof (cases "now - start_time < timeout + 3 \<and> \<not> closed_record ?h order_id")
    case True
    with Cons.prems t
    have "outcome_loop ?h order_id start_time timeout ticks = Some (res, logs, h', rest)"
      by (simp del: outcome_loop.simps add: outcome_loop_unclosed)
    from Cons.IH [OF this] obtain used where "ticks = used @ rest" "h' = after_ticks ?h used"
      by blast
    with t have "t # ticks = ((frames, now) # used) @ rest \<and> h' = after_ticks h ((frames, now) # used)"
      by simp
    then show ?thesis by blast
  next
    case False
    with Cons.prems t have "rest = ticks \<and> h' = ?h"
      by (auto simp: Let_def closed_record_def split: if_splits sum.splits option.splits)
    with t have "t # ticks = [(frames, now)] @ rest \<and> h' = after_ticks h [(frames, now)]"
      by simp
    then show ?thesis by blast
  qed
qed

lemma get_trade_outcome_consumes:
  assumes "get_trade_outcome ext h order_id expiry ticks = Some (res, logs, h', rest)"
  shows "\<exists>used. ticks = used @ rest \<and> h' = after_ticks h used"
proof (cases ticks)
  case Nil
  with assms show ?thesis by simp
next
  case (Cons t ticks')
  obtain frames start_time where t: "t = (frames, start_time)" by (cases t)
  show ?thesis
  proof (cases "get_remaining_secs ext (server_time (handle_all h frames)) expiry")
    case (Inl e)
    with assms Cons t have "ticks = [(frames, start_time)] @ rest
        \<and> h' = after_ticks h [(frames, start_time)]"
      by (simp add: Let_def)
    then show ?thesis by blast
  next
    case (Inr timeout)
    with assms Cons t outcome_loop_consumes
      [of "handle_all h frames" order_id start_time timeout ticks' res logs h' rest]
    obtain used where "ticks' = used @ rest" "h' = after_ticks (handle_all h frames) used"
      by (auto simp: Let_def)
    with Cons t have "ticks = ((frames, start_time) # used) @ rest
        \<and> h' = after_ticks h ((frames, start_time) # used)"
      by simp
    then show ?thesis by blast
  qed
qed

text \<open>
  Claim C2, as the code has it. Nothing removes an entry. When the confirmation wait
  returns (with a success, a rejection or after its timeout), every request id and every
  order id the handler held when the wait began is still held, and so it is when the
  closure wait returns. A request id is absent after the wait only if it was absent
  before: when the handler did not hold \<open>k\<close> and no placement frame for \<open>k\<close> arrives,
  it does not hold \<open>k\<close> afterwards.
\<close>

theorem registry_entries_are_never_removed:
  "(wait_for_order_confirmation ext h k expiry timeout ticks = Some (res, logs, h', rest) \<longrightarrow>
      dom (digital_options h) \<subseteq> dom (digital_options h')
      \<and> dom (position_info h) \<subseteq> dom (position_info h')
      \<and> (k \<notin> dom (digital_options h) \<and> list_all (\<lambda>t. no_placement k (fst t)) ticks \<longrightarrow>
           k \<notin> dom (digital_options h')))
   \<and> (get_trade_outcome ext h order_id expiry ticks = Some (res2, logs2, h2, rest2) \<longrightarrow>
      dom (digital_options h) \<subseteq> dom (digital_options h2)
      \<and> dom (position_info h) \<subseteq> dom (position_info h2))"
proof (intro conjI impI)
  assume w: "wait_for_order_confirmation ext h k expiry timeout ticks = Some (res, logs, h', rest)"
  from wait_for_order_confirmation_consumes [OF w]
  obtain used where u: "ticks = used @ rest" "h' = after_ticks h used" by blast
  from u dom_after_ticks [of h used]
  show "dom (digital_options h) \<subseteq> dom (digital_options h')"
    and "dom (position_info h) \<subseteq> dom (position_info h')"
    by simp_all
  assume q: "k \<notin> dom (digital_options h) \<and> list_all (\<lambda>t. no_placement k (fst t)) ticks"
  with u have "list_all (\<lambda>t. no_placement k (fst t)) used" by simp
  from quiet_after_ticks [OF this, of h] u q
  show "k \<notin> dom (digital_options h')" by (auto simp: dom_def)
next
  assume g: "get_trade_outcome ext h order_id expiry ticks = Some (res2, logs2, h2, rest2)"
  from get_trade_outcome_consumes [OF g]
  obtain used where u: "ticks = used @ rest2" "h2 = after_ticks h used" by blast
  from u dom_after_ticks [of h used]
  show "dom (digital_options h) \<subseteq> dom (digital_options h2)"
    and "dom (position_info h) \<subseteq> dom (position_info h2)"
    by simp_all
qed

lemma sample_calls:
  "send_message sample_externals name m k = None"
  "get_remaining_secs sample_externals st e = Inr 60"
  by (simp_all add: sample_externals_def)

text \<open>An instance: the handler holds the order of request \<open>3\<close>; a wait on request \<open>7\<close>
  times out while a position frame for order 9 arrives, and a closure wait on order 9
  then reads that frame. Request \<open>3\<close> and order 9 are held afterwards, request \<open>7\<close> is
  not.\<close>

theorem registry_entries_are_never_removed_witness:
  "wait_for_order_confirmation sample_externals
     (handle_message MessageHandler_init (DigitalOptionPlaced ''3'' [''id'' \<mapsto> PInt 9]))
     ''7'' (PInt 1) 10
     [([], 0), ([PositionChanged 9 [''status'' \<mapsto> PStr ''open'']], 5), ([], 11)]
   = Some (Returned None, [Error_confirmation_timeout 10],
           handle_all MessageHandler_init
             [DigitalOptionPlaced ''3'' [''id'' \<mapsto> PInt 9],
              PositionChanged 9 [''status'' \<mapsto> PStr ''open'']], [])
   \<and> {''3''} \<subseteq> dom (digital_options (handle_all MessageHandler_init
             [DigitalOptionPlaced ''3'' [''id'' \<mapsto> PInt 9],
              PositionChanged 9 [''status'' \<mapsto> PStr ''open'']]))
   \<and> ''7'' \<notin> dom (digital_options (handle_all MessageHandler_init
             [DigitalOptionPlaced ''3'' [''id'' \<mapsto> PInt 9],
              PositionChanged 9 [''status'' \<mapsto> PStr ''open'']]))
   \<and> get_trade_outcome sample_externals
       (handle_message MessageHandler_init
          (PositionChanged 9 [''status'' \<mapsto> PStr ''closed'', ''pnl'' \<mapsto> PInt 4]))
       9 (PInt 1) [([], 0), ([], 1)]
     = Some (Returned (True, PInt 4), [Info_trade_closed 9 ''WIN'' (PInt 4)],
             handle_message MessageHandler_init
               (PositionChanged 9 [''status'' \<mapsto> PStr ''closed'', ''pnl'' \<mapsto> PInt 4]), [])
   \<and> {9} \<subseteq> dom (position_info (handle_message MessageHandler_init
               (PositionChanged 9 [''status'' \<mapsto> PStr ''closed'', ''pnl'' \<mapsto> PInt 4])))"
proof -
  let ?h = "handle_message MessageHandler_init (DigitalOptionPlaced ''3'' [''id'' \<mapsto> PInt 9])"
  let ?ticks = "[([], 0), ([PositionChanged 9 [''status'' \<mapsto> PStr ''open'']], 5), ([], 11)]"
  let ?h' = "handle_all MessageHandler_init
               [DigitalOptionPlaced ''3'' [''id'' \<mapsto> PInt 9],
                PositionChanged 9 [''status'' \<mapsto> PStr ''open'']]"
  let ?g = "handle_message MessageHandler_init
              (PositionChanged 9 [''status'' \<mapsto> PStr ''closed'', ''pnl'' \<mapsto> PInt 4])"
  have w: "wait_for_order_confirmation sample_externals ?h ''7'' (PInt 1) 10 ?ticks
             = Some (Returned None, [Error_confirmation_timeout 10], ?h', [])"
    by (simp add: dict_get_def MessageHandler_init_def Let_def)
  have g: "get_trade_outcome sample_externals ?g 9 (PInt 1) [([], 0), ([], 1)]
             = Some (Returned (True, PInt 4), [Info_trade_closed 9 ''WIN'' (PInt 4)], ?g, [])"
    by (simp add: sample_calls handle_position_changed_def dict_get_def dict_get_default_def
          int_to_float_def round_double_samples Let_def)
  have before: "dom (digital_options ?h) = {''3''}" "''7'' \<notin> dom (digital_options ?h)"
      "dom (position_info ?g) = {9}"
    by (simp_all add: MessageHandler_init_def handle_position_changed_def)
  have quiet: "list_all (\<lambda>t. no_placement ''7'' (fst t)) ?ticks"
    by simp
  from registry_entries_are_never_removed
         [of sample_externals ?h "''7''" "PInt 1" 10 ?ticks "Returned None"
             "[Error_confirmation_timeout 10]" ?h' "[]" 0 "Returned (True, PInt 4)" "[]" ?h "[]"]
       registry_entries_are_never_removed
         [of sample_externals ?g "''7''" "PInt 1" 10 "[([], 0), ([], 1)]" "Returned None"
             "[]" ?g "[]" 9 "Returned (True, PInt 4)" "[Info_trade_closed 9 ''WIN'' (PInt 4)]"
             ?g "[]"]
       w g before quiet
  show ?thesis by simp
qed

text \<open>Against claim C2 as stated: a rejection is stored for request \<open>7\<close>, the wait reads
  it and returns it, and the handler the wait leaves behind still holds the entry.\<close>

theorem rejected_entry_is_kept:
  "wait_for_order_confirmation sample_externals
     (handle_message MessageHandler_init
        (DigitalOptionPlaced ''7'' [''message'' \<mapsto> PStr ''Market closed'']))
     ''7'' (PInt 1) 10 [([], 0), ([], 1)]
   = Some (Returned (Some (False, PStr ''Market closed'')),
           [Error_order_failed (PStr ''Market closed'')],
           handle_message MessageHandler_init
             (DigitalOptionPlaced ''7'' [''message'' \<mapsto> PStr ''Market closed'']),
           [])
   \<and> digital_options
       (handle_message MessageHandler_init
          (DigitalOptionPlaced ''7'' [''message'' \<mapsto> PStr ''Market closed''])) ''7''
     = Some (PStr ''Market closed'')"
  by (simp add: dict_get_def Let_def)

section \<open>The closure wait\<close>








section \<open>The executor\<close>

lemma str_int_7: "str_int 7 = ''7''"
  by (simp add: str_int_def str_nat.simps)

lemma lower_call: "lower ''call'' = ''call''" "lower ''put'' = ''put''" "lower ''buy'' = ''buy''"
  by (simp_all add: lower_def to_lower_def)

lemma strip_samples:
  "strip ''call'' = ''call''" "strip ''put'' = ''put''" "strip ''buy'' = ''buy''"
  "strip ''EURUSD'' = ''EURUSD''" "strip ''GBPUSD'' = ''GBPUSD''" "strip ''XAUXAG'' = ''XAUXAG''"
  by (simp_all add: strip_def is_space_def)

lemma prepare_sample:
  "prepare_order sample_externals h 7 (PStr ''EURUSD'') (PInt 1) (PStr ''call'') (PInt 1) =
     Inr (''7'',
          \<lparr>msg_name = ''digital-options.place-digital-option'', msg_version = ''3.0'',
           msg_body = \<lparr>user_balance_id = 12345,
                       instrument_id = ''do1A20260101D000000T1MCSPT'',
                       amount_str = ''1'', asset_id = 1, instrument_index = 0\<rparr>\<rparr>)"
  by (simp add: prepare_order_def validate_options_trading_parameters_def is_blank_def
        below_one_def lower_call strip_samples direction_map_def build_options_body_def
        sample_externals_def str_int_7 str_int_def str_nat.simps Let_def)

lemma prepare_sample2:
  "prepare_order sample_externals h 7 (PStr ''GBPUSD'') (PInt 2) (PStr ''put'') (PInt 1) =
     Inr (''7'',
          \<lparr>msg_name = ''digital-options.place-digital-option'', msg_version = ''3.0'',
           msg_body = \<lparr>user_balance_id = 12345,
                       instrument_id = ''do5A20260101D000000T1MPSPT'',
                       amount_str = ''2'', asset_id = 5, instrument_index = 0\<rparr>\<rparr>)"
  by (simp add: prepare_order_def validate_options_trading_parameters_def is_blank_def
        below_one_def lower_call strip_samples direction_map_def build_options_body_def
        sample_externals_def str_int_7 str_int_def str_nat.simps Let_def)

lemma prepare_sample_inf:
  "prepare_order sample_externals h 7 (PStr ''EURUSD'') (PFloat PosInf) (PStr ''call'') (PInt 1) =
     Inr (''7'',
          \<lparr>msg_name = ''digital-options.place-digital-option'', msg_version = ''3.0'',
           msg_body = \<lparr>user_balance_id = 12345,
                       instrument_id = ''do1A20260101D000000T1MCSPT'',
                       amount_str = ''inf'', asset_id = 1, instrument_index = 0\<rparr>\<rparr>)"
  by (simp add: prepare_order_def validate_options_trading_parameters_def is_blank_def
        below_one_def lower_call strip_samples direction_map_def build_options_body_def
        sample_externals_def str_int_7 str_int_def str_nat.simps Let_def)

lemma confirmation_loop_timeout:
  "\<not> now - start_time < timeout \<Longrightarrow>
   confirmation_loop ext h k expiry start_time timeout ((frames, now) # rest) =
     Some (Returned None, [Error_confirmation_timeout timeout], handle_all h frames, rest)"
  by (simp add: Let_def)

text \<open>
  Claim C3, as the code has it. An order was prepared and sent, and the polls of \<open>pre\<close>
  found nothing. If the next poll, before the 10 seconds are over, finds a rejection (an
  entry that is not an integer), the executor returns the pair \<open>(False, reason)\<close> to its
  caller; if the clock has reached 10 seconds, the executor logs the timeout and returns
  \<open>None\<close>. Either way it returns at that very tick, all later ticks unread: it never
  goes on to wait for the closure.
\<close>

theorem executor_stops_at_rejection_or_timeout:
  assumes prep: "prepare_order ext h r asset amount direction expiry = Inr (request_id, msg)"
      and sent: "send_message ext ''sendMessage'' msg request_id = None"
      and idle: "unconfirmed (handle_all h frames0) request_id start_time 10 pre"
  shows "(now - start_time < 10
          \<and> digital_options (handle_all (after_ticks (handle_all h frames0) pre) frames) request_id
              = Some reason
          \<and> reason \<noteq> PNone \<and> \<not> isinstance_int reason \<longrightarrow>
          execute_digital_option_trade ext h r asset amount direction expiry
            ((frames0, start_time) # pre @ (frames, now) # rest)
          = ([Send_message ''sendMessage'' msg request_id, Logged (Error_order_failed reason)],
             Some (Some (False, reason),
                   handle_all (after_ticks (handle_all h frames0) pre) frames, rest)))
       \<and> (\<not> now - start_time < 10 \<longrightarrow>
          execute_digital_option_trade ext h r asset amount direction expiry
            ((frames0, start_time) # pre @ (frames, now) # rest)
          = ([Send_message ''sendMessage'' msg request_id,
              Logged (Error_confirmation_timeout 10)],
             Some (None, handle_all (after_ticks (handle_all h frames0) pre) frames, rest)))"
  using prep sent confirmation_loop_skip [OF idle]
  by (auto simp del: confirmation_loop.simps
        simp: execute_digital_option_trade_def confirmation_loop_poll confirmation_loop_timeout)

text \<open>An instance of each case: a rejection seen by the poll at 2 seconds, with a tick
  left unread; and a clock that has reached 10 seconds at the third poll.\<close>

theorem executor_stops_at_rejection_or_timeout_witness:
  "execute_digital_option_trade sample_externals MessageHandler_init 7
     (PStr ''EURUSD'') (PInt 1) (PStr ''call'') (PInt 1)
     [([], 0), ([], 1),
      ([DigitalOptionPlaced ''7'' [''message'' \<mapsto> PStr ''Market closed'']], 2), ([], 3)]
   = ([Send_message ''sendMessage''
         \<lparr>msg_name = ''digital-options.place-digital-option'', msg_version = ''3.0'',
          msg_body = \<lparr>user_balance_id = 12345,
                      instrument_id = ''do1A20260101D000000T1MCSPT'',
                      amount_str = ''1'', asset_id = 1, instrument_index = 0\<rparr>\<rparr> ''7'',
       Logged (Error_order_failed (PStr ''Market closed''))],
      Some (Some (False, PStr ''Market closed''),
            handle_message MessageHandler_init
              (DigitalOptionPlaced ''7'' [''message'' \<mapsto> PStr ''Market closed'']),
            [([], 3)]))
   \<and> execute_digital_option_trade sample_externals MessageHandler_init 7
     (PStr ''EURUSD'') (PInt 1) (PStr ''call'') (PInt 1)
     [([], 0), ([], 1), ([], 10), ([], 11)]
   = ([Send_message ''sendMessage''
         \<lparr>msg_name = ''digital-options.place-digital-option'', msg_version = ''3.0'',
          msg_body = \<lparr>user_balance_id = 12345,
                      instrument_id = ''do1A20260101D000000T1MCSPT'',
                      amount_str = ''1'', asset_id = 1, instrument_index = 0\<rparr>\<rparr> ''7'',
       Logged (Error_confirmation_timeout 10)],
      Some (None, MessageHandler_init, [([], 11)]))"
proof -
  have idle: "unconfirmed (handle_all MessageHandler_init []) ''7'' 0 10 [([], 1)]"
    by (simp add: MessageHandler_init_def dict_get_def)
  have rejected: "(2::real) - 0 < 10
      \<and> digital_options
          (handle_all (after_ticks (handle_all MessageHandler_init []) [([], 1)])
             [DigitalOptionPlaced ''7'' [''message'' \<mapsto> PStr ''Market closed'']]) ''7''
          = Some (PStr ''Market closed'')
      \<and> PStr ''Market closed'' \<noteq> PNone \<and> \<not> isinstance_int (PStr ''Market closed'')"
    by (simp add: dict_get_def)
  have late: "\<not> (10::real) - 0 < 10"
    by simp
  from executor_stops_at_rejection_or_timeout [OF prepare_sample sample_calls(1) idle,
         of 2 "[DigitalOptionPlaced ''7'' [''message'' \<mapsto> PStr ''Market closed'']]"
            "PStr ''Market closed''" "[([], 3)]"] rejected
       executor_stops_at_rejection_or_timeout [OF prepare_sample sample_calls(1) idle,
         of 10 "[]" "PStr ''Market closed''" "[([], 11)]"] late
  show ?thesis by simp
qed

text \<open>Against claim C3 as stated: no placement frame arrives, the clock reaches 10
  seconds, and what the executor returns to its caller is \<open>None\<close>.\<close>

theorem executor_returns_None_on_timeout:
  "snd (execute_digital_option_trade sample_externals MessageHandler_init 7
          (PStr ''EURUSD'') (PInt 1) (PStr ''call'') (PInt 1)
          [([], 0), ([], 5), ([], 10)])
   = Some (None, MessageHandler_init, [])"
  by (simp add: execute_digital_option_trade_def prepare_sample sample_calls
        MessageHandler_init_def dict_get_def Let_def)

text \<open>
  Claim C4, as the code has it. No step registers a key and nothing refuses one. What
  the executor prepares and sends does not depend on what the registry holds, the
  request id is the number drawn, whatever was drawn before, and a placement frame for
  a request id replaces the entry an earlier frame stored for it: one slot a key, shared
  by every submission that drew it.
\<close>

theorem reused_key_is_neither_refused_nor_kept_apart:
  "prepare_order ext (h\<lparr>digital_options := d, binary_options := b, position_info := p\<rparr>) r
     asset amount direction expiry
   = prepare_order ext h r asset amount direction expiry
   \<and> (case prepare_order ext h r asset amount direction expiry of
        Inl e \<Rightarrow> True
      | Inr (request_id, msg) \<Rightarrow> request_id = str_int r)
   \<and> digital_options
       (handle_message (handle_message h (DigitalOptionPlaced k msg1)) (DigitalOptionPlaced k msg2))
     = digital_options (handle_message h (DigitalOptionPlaced k msg2))"
  by (auto simp: prepare_order_def build_options_body_def Let_def
        split: pyval.splits option.splits sum.splits)

theorem reused_key_is_neither_refused_nor_kept_apart_witness:
  "prepare_order sample_externals
     (MessageHandler_init\<lparr>digital_options := [''7'' \<mapsto> PInt 41], binary_options := Map.empty,
                          position_info := Map.empty\<rparr>)
     7 (PStr ''EURUSD'') (PInt 1) (PStr ''call'') (PInt 1)
   = Inr (''7'',
          \<lparr>msg_name = ''digital-options.place-digital-option'', msg_version = ''3.0'',
           msg_body = \<lparr>user_balance_id = 12345,
                       instrument_id = ''do1A20260101D000000T1MCSPT'',
                       amount_str = ''1'', asset_id = 1, instrument_index = 0\<rparr>\<rparr>)
   \<and> digital_options
       (handle_message
          (handle_message MessageHandler_init (DigitalOptionPlaced ''7'' [''id'' \<mapsto> PInt 41]))
          (DigitalOptionPlaced ''7'' [''id'' \<mapsto> PInt 42])) ''7''
     = Some (PInt 42)"
  using reused_key_is_neither_refused_nor_kept_apart
          [where ext = sample_externals and h = MessageHandler_init
             and d = "[''7'' \<mapsto> PInt 41]" and b = Map.empty and p = Map.empty and r = 7
             and asset = "PStr ''EURUSD''" and amount = "PInt 1" and direction = "PStr ''call''"
             and expiry = "PInt 1" and k = "''7''" and ?msg1.0 = "[''id'' \<mapsto> PInt 41]"
             and ?msg2.0 = "[''id'' \<mapsto> PInt 42]"]
  by (simp add: prepare_sample dict_get_def)

text \<open>Against claim C4 as stated: two orders draw the request id 7 while neither is
  resolved. Both are sent under that id, neither fails, and the one placement frame
  that arrives answers both waits with the same order id.\<close>

theorem same_request_id_shares_one_slot:
  "snd (execute_digital_option_trade sample_externals MessageHandler_init 7
          (PStr ''EURUSD'') (PInt 1) (PStr ''call'') (PInt 1)
          [([], 0), ([DigitalOptionPlaced ''7'' [''id'' \<mapsto> PInt 42]], 1)])
   = Some (Some (True, PInt 42),
           handle_message MessageHandler_init (DigitalOptionPlaced ''7'' [''id'' \<mapsto> PInt 42]), [])
   \<and> snd (execute_digital_option_trade sample_externals MessageHandler_init 7
          (PStr ''GBPUSD'') (PInt 2) (PStr ''put'') (PInt 1)
          [([], 0), ([DigitalOptionPlaced ''7'' [''id'' \<mapsto> PInt 42]], 1)])
   = Some (Some (True, PInt 42),
           handle_message MessageHandler_init (DigitalOptionPlaced ''7'' [''id'' \<mapsto> PInt 42]), [])
   \<and> (\<exists>m1 m2 logs1 logs2.
        fst (execute_digital_option_trade sample_externals MessageHandler_init 7
               (PStr ''EURUSD'') (PInt 1) (PStr ''call'') (PInt 1)
               [([], 0), ([DigitalOptionPlaced ''7'' [''id'' \<mapsto> PInt 42]], 1)])
          = Send_message ''sendMessage'' m1 ''7'' # logs1
        \<and> fst (execute_digital_option_trade sample_externals MessageHandler_init 7
               (PStr ''GBPUSD'') (PInt 2) (PStr ''put'') (PInt 1)
               [([], 0), ([DigitalOptionPlaced ''7'' [''id'' \<mapsto> PInt 42]], 1)])
          = Send_message ''sendMessage'' m2 ''7'' # logs2
        \<and> m1 \<noteq> m2)"
  by (simp add: execute_digital_option_trade_def prepare_sample prepare_sample2
        sample_calls MessageHandler_init_def dict_get_def Let_def)

lemma prepare_order_rejects:
  assumes "is_blank asset
         \<or> get_asset_id ext asset = Inl KeyError
         \<or> \<not> isinstance_int_float amount \<or> below_one amount
         \<or> (\<forall>d. direction = PStr d \<longrightarrow> strip (lower d) \<noteq> ''put'' \<and> strip (lower d) \<noteq> ''call'')
         \<or> \<not> isinstance_int expiry \<or> below_one expiry
         \<or> \<not> truthy (current_account_id ext)"
  shows "\<exists>e. prepare_order ext h r asset amount direction expiry = Inl e"
proof (cases direction)
  case (PStr d)
  show ?thesis
  proof (cases "validate_options_trading_parameters ext asset amount (lower d) expiry")
    case (Some e)
    with PStr show ?thesis by (simp add: prepare_order_def Let_def)
  next
    case None
    then have ok: "\<not> is_blank asset" "isinstance_int_float amount" "\<not> below_one amount"
        "strip (lower (lower d)) = ''put'' \<or> strip (lower (lower d)) = ''call''"
        "isinstance_int expiry" "\<not> below_one expiry" "truthy (current_account_id ext)"
      by (auto simp: validate_options_trading_parameters_def split: if_splits)
    have ll: "lower (lower d) = lower d"
      by (simp add: lower_def to_lower_def split: option.splits)
    from assms ok PStr ll have "get_asset_id ext asset = Inl KeyError"
      by auto
    with PStr None show ?thesis
      by (simp add: prepare_order_def build_options_body_def Let_def split: option.splits)
  qed
qed (simp_all add: prepare_order_def)

text \<open>
  Claim C6, as the code has it. When the asset is not a non-blank string naming an
  asset of the table, or the amount is not an \<open>int\<close> or \<open>float\<close> or is below 1, or the
  direction is not a string that lowercased and stripped is \<open>put\<close> or \<open>call\<close>, or the
  expiry is not an \<open>int\<close> or is below 1, or no account id is set, the executor sends
  nothing: all it does is log the exception, and it returns \<open>None\<close> at once. (The amount
  is not tested for being finite.)
\<close>

theorem invalid_order_is_logged_and_never_sent:
  assumes "is_blank asset
         \<or> get_asset_id ext asset = Inl KeyError
         \<or> \<not> isinstance_int_float amount \<or> below_one amount
         \<or> (\<forall>d. direction = PStr d \<longrightarrow> strip (lower d) \<noteq> ''put'' \<and> strip (lower d) \<noteq> ''call'')
         \<or> \<not> isinstance_int expiry \<or> below_one expiry
         \<or> \<not> truthy (current_account_id ext)"
  shows "\<exists>e. execute_digital_option_trade ext h r asset amount direction expiry ticks =
               ([Logged (except_log e)], Some (None, h, ticks))"
  using prepare_order_rejects [OF assms, of h r]
  by (auto simp: execute_digital_option_trade_def)

text \<open>An instance of each rule: an asset the table does not hold, an amount of one half,
  the direction \<open>buy\<close>, an expiry of zero, and an environment with no account.\<close>

theorem invalid_order_is_logged_and_never_sent_witness:
  "(\<exists>e. execute_digital_option_trade sample_externals MessageHandler_init 7
          (PStr ''XAUXAG'') (PInt 1) (PStr ''call'') (PInt 1) [([], 0)]
        = ([Logged (except_log e)], Some (None, MessageHandler_init, [([], 0)])))
   \<and> (\<exists>e. execute_digital_option_trade sample_externals MessageHandler_init 7
          (PStr ''EURUSD'') (PFloat (Finite (1 / 2))) (PStr ''call'') (PInt 1) [([], 0)]
        = ([Logged (except_log e)], Some (None, MessageHandler_init, [([], 0)])))
   \<and> (\<exists>e. execute_digital_option_trade sample_externals MessageHandler_init 7
          (PStr ''EURUSD'') (PInt 1) (PStr ''buy'') (PInt 1) [([], 0)]
        = ([Logged (except_log e)], Some (None, MessageHandler_init, [([], 0)])))
   \<and> (\<exists>e. execute_digital_option_trade sample_externals MessageHandler_init 7
          (PStr ''EURUSD'') (PInt 1) (PStr ''call'') (PInt 0) [([], 0)]
        = ([Logged (except_log e)], Some (None, MessageHandler_init, [([], 0)])))
   \<and> (\<exists>e. execute_digital_option_trade (sample_externals\<lparr>current_account_id := PNone\<rparr>)
          MessageHandler_init 7
          (PStr ''EURUSD'') (PInt 1) (PStr ''call'') (PInt 1) [([], 0)]
        = ([Logged (except_log e)], Some (None, MessageHandler_init, [([], 0)])))"
proof -
  have asset: "get_asset_id sample_externals (PStr ''XAUXAG'') = Inl KeyError"
    by (simp add: sample_externals_def)
  have amount: "below_one (PFloat (Finite (1 / 2)))"
    by (simp add: below_one_def)
  have direction: "\<forall>d. PStr ''buy'' = PStr d \<longrightarrow>
      strip (lower d) \<noteq> ''put'' \<and> strip (lower d) \<noteq> ''call''"
    by (simp add: lower_call strip_samples)
  have expiry: "below_one (PInt 0)"
    by (simp add: below_one_def)
  have account: "\<not> truthy (current_account_id (sample_externals\<lparr>current_account_id := PNone\<rparr>))"
    by simp
  from invalid_order_is_logged_and_never_sent
         [of "PStr ''XAUXAG''" sample_externals "PInt 1" "PStr ''call''" "PInt 1"
             MessageHandler_init 7 "[([], 0)]"]
       invalid_order_is_logged_and_never_sent
         [of "PStr ''EURUSD''" sample_externals "PFloat (Finite (1 / 2))" "PStr ''call''"
             "PInt 1" MessageHandler_init 7 "[([], 0)]"]
       invalid_order_is_logged_and_never_sent
         [of "PStr ''EURUSD''" sample_externals "PInt 1" "PStr ''buy''" "PInt 1"
             MessageHandler_init 7 "[([], 0)]"]
       invalid_order_is_logged_and_never_sent
         [of "PStr ''EURUSD''" sample_externals "PInt 1" "PStr ''call''" "PInt 0"
             MessageHandler_init 7 "[([], 0)]"]
       invalid_order_is_logged_and_never_sent
         [of "PStr ''EURUSD''" "sample_externals\<lparr>current_account_id := PNone\<rparr>" "PInt 1"
             "PStr ''call''" "PInt 1" MessageHandler_init 7 "[([], 0)]"]
       asset amount direction expiry account
  show ?thesis by blast
qed

text \<open>Against claim C6 as stated: the amount \<open>float('inf')\<close> is not a finite number, it
  passes validation, and the order is sent.\<close>

theorem infinite_amount_is_sent:
  "execute_digital_option_trade sample_externals MessageHandler_init 7
     (PStr ''EURUSD'') (PFloat PosInf) (PStr ''call'') (PInt 1) []
   = ([Send_message ''sendMessage''
         \<lparr>msg_name = ''digital-options.place-digital-option'', msg_version = ''3.0'',
          msg_body = \<lparr>user_balance_id = 12345,
                      instrument_id = ''do1A20260101D000000T1MCSPT'',
                      amount_str = ''inf'', asset_id = 1, instrument_index = 0\<rparr>\<rparr> ''7''],
      None)"
  by (simp add: execute_digital_option_trade_def prepare_sample_inf sample_calls)

section \<open>The session report\<close>

lemma reported_simps:
  "reported [] = []"
  "reported (None # results) = reported results"
  "reported (Some res # results) = res # reported results"
  by (simp_all add: reported_def List.map_filter_simps)

lemma report_loop_tallies:
  "case accumulate (total_profit rep)
          (map res_profit (filter (\<lambda>res. is_win res \<or> is_loss res) (reported results))) of
     Inl e \<Rightarrow> report_loop rep results = Inl e
   | Inr acc \<Rightarrow>
       (\<exists>rep'. report_loop rep results = Inr rep'
          \<and> wins rep' = wins rep + length (filter is_win (reported results))
          \<and> losses rep' = losses rep + length (filter is_loss (reported results))
          \<and> total_profit rep' = acc)"
proof (induction results arbitrary: rep)
  case Nil
  then show ?case by (simp add: reported_simps)
next
  case (Cons r results)
  show ?case
  proof (cases r)
    case None
    with Cons [of rep] show ?thesis
      by (auto simp: report_step_def reported_simps split: sum.splits)
  next
    case (Some res)
    let ?rep1 = "rep\<lparr>report_lines := report_lines rep
        @ [(if res_result res = ''WIN'' then Check_mark
            else if res_result res = ''LOSS'' then Cross_mark else Warning_sign,
            res_asset res, res_direction res, res_result res, res_gales res)]\<rparr>"
    show ?thesis
    proof (cases "is_win res \<or> is_loss res")
      case False
      with Some Cons [of ?rep1] show ?thesis
        by (auto simp: report_step_def reported_simps is_win_def is_loss_def Let_def
              split: sum.splits)
    next
      case True
      show ?thesis
      proof (cases "py_float_add (total_profit rep) (res_profit res)")
        case (Inl e)
        with Some True show ?thesis
          by (auto simp: report_step_def reported_simps is_win_def is_loss_def Let_def
                split: sum.splits)
      next
        case (Inr acc)
        show ?thesis
        proof (cases "is_win res")
          case True
          with Some Inr Cons [of "?rep1\<lparr>wins := wins rep + 1, total_profit := acc\<rparr>"]
          show ?thesis
            by (auto simp: report_step_def reported_simps is_win_def is_loss_def Let_def
                  split: sum.splits)
        next
          case False
          with \<open>is_win res \<or> is_loss res\<close> have "is_loss res" by simp
          with False Some Inr Cons [of "?rep1\<lparr>losses := losses rep + 1, total_profit := acc\<rparr>"]
          show ?thesis
            by (auto simp: report_step_def reported_simps is_win_def is_loss_def Let_def
                  split: sum.splits)
        qed
      qed
    qed
  qed
qed

text \<open>
  Claim C7, as the code has it. For the results of the launched trades, the report
  counts as wins the results whose result is \<open>WIN\<close>, as losses those whose result is
  \<open>LOSS\<close>, and its total profit is the float sum, taken from the left and starting at
  \<open>0.0\<close>, of the profit of every win and every loss: each addition rounds to a double.
  A result that is absent or has any other result (\<open>TIMEOUT\<close>) adds to neither count
  and not to the sum. When an addition raises (a profit that is no number, an \<open>int\<close>
  beyond the floats), so does the report.
\<close>

theorem report_counts_and_sums:
  assumes "results \<noteq> []"
  shows "case accumulate (Finite 0)
               (map res_profit
                  (filter (\<lambda>res. is_win res \<or> is_loss res) (reported results))) of
           Inl e \<Rightarrow> session_report results = Inl e
         | Inr acc \<Rightarrow>
             (\<exists>rep. session_report results = Inr (Some rep)
                \<and> wins rep = length (filter is_win (reported results))
                \<and> losses rep = length (filter is_loss (reported results))
                \<and> total_profit rep = acc)"
  using assms report_loop_tallies
    [of "\<lparr>report_lines = [], wins = 0, losses = 0, total_profit = Finite 0\<rparr>" results]
  by (auto simp: session_report_def split: sum.splits)

text \<open>An instance: a win of 10, a trade that reported nothing, a loss of 5 and a
  timeout give one win, one loss and a total of 5.\<close>

theorem report_counts_and_sums_witness:
  "\<exists>rep. session_report
      [Some \<lparr>res_asset = ''EURAUD'', res_direction = ''CALL'', res_result = ''WIN'',
             res_profit = PFloat (Finite 10), res_gales = 0\<rparr>,
       None,
       Some \<lparr>res_asset = ''GBPUSD'', res_direction = ''PUT'', res_result = ''LOSS'',
             res_profit = PFloat (Finite (- 5)), res_gales = 1\<rparr>,
       Some \<lparr>res_asset = ''USDJPY'', res_direction = ''PUT'', res_result = ''TIMEOUT'',
             res_profit = PFloat (Finite 3), res_gales = 0\<rparr>] = Inr (Some rep)
     \<and> wins rep = 1 \<and> losses rep = 1 \<and> total_profit rep = Finite 5"
proof -
  let ?results = "[Some \<lparr>res_asset = ''EURAUD'', res_direction = ''CALL'', res_result = ''WIN'',
             res_profit = PFloat (Finite 10), res_gales = 0\<rparr>,
       None,
       Some \<lparr>res_asset = ''GBPUSD'', res_direction = ''PUT'', res_result = ''LOSS'',
             res_profit = PFloat (Finite (- 5)), res_gales = 1\<rparr>,
       Some \<lparr>res_asset = ''USDJPY'', res_direction = ''PUT'', res_result = ''TIMEOUT'',
             res_profit = PFloat (Finite 3), res_gales = 0\<rparr>]"
  have ne: "?results \<noteq> []" by simp
  have total: "accumulate (Finite 0)
      (map res_profit (filter (\<lambda>res. is_win res \<or> is_loss res) (reported ?results)))
      = Inr (Finite 5)"
    by (simp add: reported_simps is_win_def is_loss_def float_add_def as_double_def
          round_double_samples)
  from report_counts_and_sums [OF ne] show ?thesis
    unfolding total by (simp add: reported_simps is_win_def is_loss_def)
qed

text \<open>Against claim C7 as stated: a win of \<open>1e16\<close>, a win of \<open>1.0\<close> and a loss of
  \<open>-1e16\<close>. The sum of the three profits is 1; the report's total is \<open>0.0\<close>, since
  \<open>1e16 + 1.0\<close> rounds back to \<open>1e16\<close>.\<close>

theorem report_total_is_rounded:
  "session_report
      [Some \<lparr>res_asset = ''EURAUD'', res_direction = ''CALL'', res_result = ''WIN'',
             res_profit = PFloat (Finite 10000000000000000), res_gales = 0\<rparr>,
       Some \<lparr>res_asset = ''GBPUSD'', res_direction = ''PUT'', res_result = ''WIN'',
             res_profit = PFloat (Finite 1), res_gales = 0\<rparr>,
       Some \<lparr>res_asset = ''USDJPY'', res_direction = ''PUT'', res_result = ''LOSS'',
             res_profit = PFloat (Finite (- 10000000000000000)), res_gales = 0\<rparr>]
   = Inr (Some \<lparr>report_lines =
                   [(Check_mark, ''EURAUD'', ''CALL'', ''WIN'', 0),
                    (Check_mark, ''GBPUSD'', ''PUT'', ''WIN'', 0),
                    (Cross_mark, ''USDJPY'', ''PUT'', ''LOSS'', 0)],
                 wins = 2, losses = 1, total_profit = Finite 0\<rparr>)
   \<and> Finite (10000000000000000 + 1 + (- 10000000000000000)) \<noteq> Finite 0"
  by (simp add: session_report_def report_step_def float_add_def as_double_def
        round_double_samples Let_def)

end
